theory Spec2Isabelle
  imports Main "HOL-Library.AList" "HOL-Library.Sublist"
begin

section \<open>Data model\<close>

text \<open>
  A shallow embedding of \<^verbatim>\<open>cmd/lk/app.go\<close> (the \<^verbatim>\<open>lk app\<close> commands) and of the
  agent-dispatch commands of the livekit command-line tool. Go's \<^verbatim>\<open>error\<close> values
  are \<open>error option\<close> (\<open>None\<close> is \<^verbatim>\<open>nil\<close>); \<^verbatim>\<open>errors.New(msg)\<close> is \<open>Err msg\<close>.
\<close>

datatype error = Err string

text \<open>\<^verbatim>\<open>bootstrap.Template\<close> and \<^verbatim>\<open>config.ProjectConfig\<close>, with the fields the commands read.\<close>

record Template =
  t_Name :: string
  t_URL :: string

record ProjectConfig =
  p_Name :: string
  p_URL :: string
  p_APIKey :: string
  p_APISecret :: string

text \<open>
  The directories the commands touch: each directory path with the names of its
  entries. \<open>Dir p\<close> is the path \<open>p\<close> itself and \<open>Entry p n\<close> is \<^verbatim>\<open>path.Join(p, n)\<close>,
  the entry \<open>n\<close> inside the directory \<open>p\<close>.
\<close>

type_synonym filesystem = "(string \<times> string list) list"

datatype fpath = Dir string | Entry string string

text \<open>
  What an invocation does to the outside, in order: every call of a collaborator
  (a function of another package, an external process, a prompt) and every
  file-system operation of the commands themselves is one event.
\<close>

datatype event =
    EvPrintln string
  | EvLoadProjectDetails
  | EvLoadProjectConfig
  | EvSelectProject
  | EvConfirmAuth
  | EvInitAuth
  | EvTryAuthIfNeeded
  | EvRequireToken
  | EvFetchSandboxDetails string string string
  | EvFetchTemplates
  | EvRunForm
  | EvGitClone string string
  | EvRemoveAll fpath
  | EvRename string string
  | EvInstantiateDotEnv string "string \<Rightarrow> string option" bool
  | EvParseTaskfile string
  | EvNewTask string string bool
  | EvRunTask string
  | EvShowSubcommandHelp
  | EvPrintJSON
  | EvPrintf string
  | EvPrintTable "string list list"
  | EvNewGuid string
  | EvListDispatch string string
  | EvCreateDispatch string string string
  | EvDeleteDispatch string string

text \<open>
  The world outside the process: the file system, \<^verbatim>\<open>cliConfig.Projects\<close> (the
  projects configured locally), the events so far, and \<open>ext\<close> for everything else
  (remote services, the user at the prompts).
\<close>

record 'x world =
  fs :: filesystem
  cliProjects :: "ProjectConfig list"
  evlog :: "event list"
  ext :: 'x

text \<open>
  A collaborator is any function of the world. \<open>invoke\<close> calls one and records the
  call; the record of events is the commands' own, a collaborator cannot rewrite it.
\<close>

definition invoke :: "event \<Rightarrow> ('x world \<Rightarrow> 'a \<times> 'x world) \<Rightarrow> 'x world \<Rightarrow> 'a \<times> 'x world" where
  "invoke ev f w = (case f w of (r, w') \<Rightarrow> (r, w'\<lparr>evlog := evlog w @ [ev]\<rparr>))"

definition Println :: "string \<Rightarrow> 'x world \<Rightarrow> 'x world" where
  "Println s w = w\<lparr>evlog := evlog w @ [EvPrintln s]\<rparr>"

subsection \<open>File-system operations\<close>

text \<open>
  \<^verbatim>\<open>os.RemoveAll\<close>: removes the path and everything below it; a path that does not
  exist is not an error. Every caller here discards its result.
\<close>

fun os_RemoveAll :: "fpath \<Rightarrow> 'x world \<Rightarrow> 'x world" where
  "os_RemoveAll (Dir p) w =
     w\<lparr>fs := AList.delete p (fs w), evlog := evlog w @ [EvRemoveAll (Dir p)]\<rparr>"
| "os_RemoveAll (Entry p n) w =
     w\<lparr>fs := AList.map_entry p (removeAll n) (fs w), evlog := evlog w @ [EvRemoveAll (Entry p n)]\<rparr>"

text \<open>The events that are file-system operations of the commands themselves.\<close>

fun fileOp :: "event \<Rightarrow> bool" where
  "fileOp (EvRemoveAll _) = True"
| "fileOp (EvRename _ _) = True"
| "fileOp _ = False"


definition exists_path :: "filesystem \<Rightarrow> string \<Rightarrow> bool" where
  "exists_path f p = (map_of f p \<noteq> None)"

definition entries :: "filesystem \<Rightarrow> string \<Rightarrow> string list" where
  "entries f p = (case map_of f p of None \<Rightarrow> [] | Some es \<Rightarrow> es)"

subsection \<open>The staging path\<close>

text \<open>
  Modelled from the spec: \<^verbatim>\<open>useTempPath\<close> is not in the sources at hand (only its
  call in \<^verbatim>\<open>cloneTemplate\<close> is). The spec, 4.2: "Allocate a staging path guaranteed
  not to collide with the final name (e.g., a name derived from the final name but
  distinguishable, verified unused)"; "Register a guaranteed cleanup of the staging
  path"; "atomically relocate (rename) the staging path's contents to the final
  directory name. If the final directory already exists, this is an error (no
  silent overwrite)". The staging path is the final name with the suffix
  \<^verbatim>\<open>.tmp\<close>, lengthened by \<^verbatim>\<open>_\<close> until no path of that name exists. The
  allocation creates nothing: the clone creates the staging directory. Renaming a
  staging path that does not exist is an error too; the cleanup is
  \<^verbatim>\<open>os.RemoveAll\<close> of the staging path.
\<close>

fun firstUnused :: "string list \<Rightarrow> string \<Rightarrow> nat \<Rightarrow> string" where
  "firstUnused used cand 0 = cand"
| "firstUnused used cand (Suc n) =
     (if cand \<in> set used then firstUnused used (cand @ ''_'') n else cand)"

text \<open>Modelled from the spec: the staging path that \<^verbatim>\<open>useTempPath\<close> allocates, see above.\<close>

definition stagingPath :: "filesystem \<Rightarrow> string \<Rightarrow> string" where
  "stagingPath f permanentPath =
     firstUnused (map fst f) (permanentPath @ ''.tmp'') (length f)"

text \<open>
  Modelled from the spec: the function \<^verbatim>\<open>relocate\<close> that \<^verbatim>\<open>useTempPath\<close> returns, a
  rename of the staging path to the final name that fails when the final name exists.
\<close>

definition relocate :: "string \<Rightarrow> string \<Rightarrow> 'x world \<Rightarrow> error option \<times> 'x world" where
  "relocate tempPath permanentPath w =
     (let w' = w\<lparr>evlog := evlog w @ [EvRename tempPath permanentPath]\<rparr> in
      case map_of (fs w) tempPath of
        None \<Rightarrow> (Some (Err ''rename: no such file or directory''), w')
      | Some es \<Rightarrow>
          if exists_path (fs w) permanentPath
          then (Some (Err ''rename: file exists''), w')
          else (None, w'\<lparr>fs := (permanentPath, es) # AList.delete tempPath (fs w)\<rparr>))"

text \<open>
  Modelled from the spec: the function \<^verbatim>\<open>cleanup\<close> that \<^verbatim>\<open>useTempPath\<close> returns, the
  removal of the staging path.
\<close>

definition cleanup :: "string \<Rightarrow> 'x world \<Rightarrow> 'x world" where
  "cleanup tempPath w = os_RemoveAll (Dir tempPath) w"

text \<open>
  Modelled from the spec: \<^verbatim>\<open>useTempPath\<close>, which returns the staging path with its
  \<^verbatim>\<open>relocate\<close> and \<^verbatim>\<open>cleanup\<close>.
\<close>

definition useTempPath ::
  "string \<Rightarrow> 'x world \<Rightarrow>
     string \<times> ('x world \<Rightarrow> error option \<times> 'x world) \<times> ('x world \<Rightarrow> 'x world)" where
  "useTempPath permanentPath w =
     (let tempPath = stagingPath (fs w) permanentPath
      in (tempPath, relocate tempPath permanentPath, cleanup tempPath))"

section \<open>Collaborators of the app commands\<close>

text \<open>
  What the commands read of \<^verbatim>\<open>*cli.Command\<close>: the positional arguments and the
  flags.
\<close>

record Command =
  c_args :: "string list"
  c_verbose :: bool
  c_install :: bool
  c_json :: bool
  c_room :: string
  c_agent_name :: string
  c_metadata :: string
  c_new_room :: bool

text \<open>\<^verbatim>\<open>cmd.Args().First()\<close> and \<^verbatim>\<open>cmd.Args().Get(1)\<close>: the empty string when absent.\<close>

definition args_First :: "Command \<Rightarrow> string" where
  "args_First cmd = (case c_args cmd of [] \<Rightarrow> [] | a # _ \<Rightarrow> a)"

definition args_Get1 :: "Command \<Rightarrow> string" where
  "args_Get1 cmd = (case c_args cmd of a # b # _ \<Rightarrow> b | _ \<Rightarrow> [])"

text \<open>The package-level variables of \<^verbatim>\<open>app.go\<close>, and \<^verbatim>\<open>serverURL\<close>.\<close>

record globals =
  template :: "Template option"
  templateName :: string
  templateURL :: string
  sandboxID :: string
  appName :: string
  project :: "ProjectConfig option"
  serverURL :: string

text \<open>
  The fields of a \<^verbatim>\<open>huh\<close> form: a select with its title, bound value and options
  (label, value), an input with its title, placeholder, bound value and validator.
  The validator reads the file system (\<^verbatim>\<open>os.Stat\<close>).
\<close>

datatype field =
    SelectField string string "(string \<times> string) list"
  | InputField string string string "filesystem \<Rightarrow> string \<Rightarrow> error option"

record form_values =
  chosenURL :: string
  enteredName :: string

text \<open>The executable unit \<^verbatim>\<open>func() error\<close> that \<^verbatim>\<open>bootstrap.NewTask\<close> returns.\<close>

type_synonym 'x task = "'x world \<Rightarrow> error option \<times> 'x world"

text \<open>
  How far the action of a spinner had got when \<^verbatim>\<open>Run\<close> returned before the action
  ended. The action of \<^verbatim>\<open>cloneTemplate\<close> is the clone, then the removal of \<^verbatim>\<open>.git\<close>.
\<close>

datatype progress = BeforeClone | AfterClone

text \<open>
  The collaborators of the bootstrap flow, as the code calls them: functions of
  \<^verbatim>\<open>pkg/bootstrap\<close>, the \<^verbatim>\<open>git\<close> process, the \<^verbatim>\<open>huh\<close> prompts and spinner. Each
  returns what the Go function returns; \<open>'tf\<close> is the parsed task file. Of the
  spinner, \<open>spinnerErr\<close> is the error of \<^verbatim>\<open>Run\<close> once the action has ended, and
  \<open>spinnerAbort\<close> tells whether \<^verbatim>\<open>Run\<close> returns an error while the action is still
  running, and how far the action had got then.
\<close>

record ('x, 'tf) bootstrap_env =
  requireToken :: "Command \<Rightarrow> 'x world \<Rightarrow> (string \<times> error option) \<times> 'x world"
  FetchSandboxDetails ::
    "string \<Rightarrow> string \<Rightarrow> string \<Rightarrow> 'x world \<Rightarrow> (Template list \<times> error option) \<times> 'x world"
  FetchTemplates :: "'x world \<Rightarrow> (Template list \<times> error option) \<times> 'x world"
  RunForm :: "field list \<Rightarrow> 'x world \<Rightarrow> (form_values \<times> error option) \<times> 'x world"
  gitClone :: "string \<Rightarrow> string \<Rightarrow> 'x world \<Rightarrow> (string \<times> error option) \<times> 'x world"
  spinnerErr :: "string \<Rightarrow> 'x world \<Rightarrow> error option"
  spinnerAbort :: "string \<Rightarrow> 'x world \<Rightarrow> (error \<times> progress) option"
  inputPrompt :: "string \<Rightarrow> string \<Rightarrow> 'x world \<Rightarrow> (string \<times> error option) \<times> 'x world"
  InstantiateDotEnv ::
    "string \<Rightarrow> (string \<Rightarrow> string option) \<Rightarrow> bool \<Rightarrow>
     (string \<Rightarrow> string \<Rightarrow> 'x world \<Rightarrow> (string \<times> error option) \<times> 'x world) \<Rightarrow>
     'x world \<Rightarrow> error option \<times> 'x world"
  ParseTaskfile :: "string \<Rightarrow> 'x world \<Rightarrow> ('tf \<times> error option) \<times> 'x world"
  NewTask ::
    "'tf \<Rightarrow> string \<Rightarrow> string \<Rightarrow> bool \<Rightarrow> 'x world \<Rightarrow> ('x task option \<times> error option) \<times> 'x world"

text \<open>
  \<^verbatim>\<open>spinner.New().Title(t).Action(f).Run()\<close> when the action runs to its end before
  \<^verbatim>\<open>Run\<close> returns: \<^verbatim>\<open>Run\<close> then returns the spinner's own error, if any. The
  action's results are the variables its closure assigns. That is every run of a
  spinner with \<^verbatim>\<open>Accessible(true)\<close> (\<^verbatim>\<open>doInstall\<close>, \<^verbatim>\<open>doPostCreate\<close>), where \<^verbatim>\<open>Run\<close>
  itself calls the action, and the runs of the spinner of \<^verbatim>\<open>cloneTemplate\<close> that
  are not cut short.
\<close>

definition spinnerRun ::
  "(string \<Rightarrow> 'x world \<Rightarrow> error option) \<Rightarrow> string \<Rightarrow> ('x world \<Rightarrow> 'r \<times> 'x world) \<Rightarrow>
   'x world \<Rightarrow> ('r \<times> error option) \<times> 'x world" where
  "spinnerRun sperr title action w =
     (case action w of (r, w') \<Rightarrow> ((r, sperr title w'), w'))"

section \<open>cloneTemplate\<close>

text \<open>
  The spinner's action of \<^verbatim>\<open>cloneTemplate\<close>: \<^verbatim>\<open>git clone --depth=1 url tempName\<close>,
  whose combined output and error it keeps, then
  \<^verbatim>\<open>os.RemoveAll(path.Join(tempName, ".git"))\<close>, whatever the clone returned.
\<close>

definition cloneAction ::
  "('x, 'tf) bootstrap_env \<Rightarrow> string \<Rightarrow> string \<Rightarrow> 'x world \<Rightarrow>
   (string \<times> error option) \<times> 'x world" where
  "cloneAction C url tempName w =
     (case invoke (EvGitClone url tempName) (gitClone C url tempName) w of
        (res, w1) \<Rightarrow> (res, os_RemoveAll (Entry tempName ''.git'') w1))"

text \<open>
  \<^verbatim>\<open>cloneTemplate\<close>. Its spinner is not accessible: \<^verbatim>\<open>Run\<close> starts the action in a
  goroutine of its own and waits for the terminal program, which ends when the
  action has ended (\<^verbatim>\<open>Run\<close> returns nil only then) or fails before. So \<^verbatim>\<open>Run\<close> can
  return an error while the action is still running; \<^verbatim>\<open>cloneTemplate\<close> returns that
  error at once, and the rest of the action runs after the return. The deferred
  \<^verbatim>\<open>cleanup()\<close> is applied to the world of every return.
\<close>

definition cloneTemplate ::
  "('x, 'tf) bootstrap_env \<Rightarrow> Command \<Rightarrow> string \<Rightarrow> string \<Rightarrow> 'x world \<Rightarrow>
   error option \<times> 'x world" where
  "cloneTemplate C cmd url name w =
     (case useTempPath name w of
        (tempName, relocate', cleanup') \<Rightarrow>
          (case
             (case spinnerAbort C (''Cloning template from '' @ url) w of
                Some (err, BeforeClone) \<Rightarrow> (Some err, w)
              | Some (err, AfterClone) \<Rightarrow>
                  (Some err, snd (invoke (EvGitClone url tempName) (gitClone C url tempName) w))
              | None \<Rightarrow>
                  (case spinnerRun (spinnerErr C) (''Cloning template from '' @ url)
                          (cloneAction C url tempName) w of
                     ((res, Some err), w1) \<Rightarrow> (Some err, w1)
                   | ((res, None), w1) \<Rightarrow>
                       (case res of
                          (out, cmdErr) \<Rightarrow>
                            let w2 = (if length out > 0 \<and> (cmdErr \<noteq> None \<or> c_verbose cmd)
                                      then Println out w1 else w1)
                            in (case cmdErr of
                                  Some e \<Rightarrow> (Some e, w2)
                                | None \<Rightarrow> relocate' w2))))
           of (r, w3) \<Rightarrow> (r, cleanup' w3)))"

text \<open>
  What the goroutine of the action still does to the world after that invocation
  of \<^verbatim>\<open>cloneTemplate\<close> has returned: the whole action, the removal of \<^verbatim>\<open>.git\<close>, or
  nothing when the action had ended.
\<close>

definition cloneTemplate_pending ::
  "('x, 'tf) bootstrap_env \<Rightarrow> Command \<Rightarrow> string \<Rightarrow> string \<Rightarrow> 'x world \<Rightarrow>
   'x world \<Rightarrow> 'x world" where
  "cloneTemplate_pending C cmd url name w =
     (case useTempPath name w of
        (tempName, relocate', cleanup') \<Rightarrow>
          (case spinnerAbort C (''Cloning template from '' @ url) w of
             Some (err, BeforeClone) \<Rightarrow> (\<lambda>v. snd (cloneAction C url tempName v))
           | Some (err, AfterClone) \<Rightarrow> os_RemoveAll (Entry tempName ''.git'')
           | None \<Rightarrow> (\<lambda>v. v)))"

section \<open>instantiateEnv\<close>

text \<open>
  A Go function either returns its \<^verbatim>\<open>error\<close> or panics (a nil pointer dereferenced,
  a nil function called); a panic unwinds through every caller here.
\<close>

datatype outcome = Returned "error option" | Panicked string

text \<open>The map literal of \<^verbatim>\<open>instantiateEnv\<close>, from the fields of \<^verbatim>\<open>project\<close>.\<close>

definition baseEnv :: "ProjectConfig \<Rightarrow> string \<Rightarrow> string option" where
  "baseEnv p =
     [''LIVEKIT_API_KEY'' \<mapsto> p_APIKey p,
      ''LIVEKIT_API_SECRET'' \<mapsto> p_APISecret p,
      ''LIVEKIT_URL'' \<mapsto> p_URL p]"

text \<open>
  \<^verbatim>\<open>if addlEnv != nil { for k, v := range *addlEnv { env[k] = v } }\<close>. The Go map
  \<^verbatim>\<open>*addlEnv\<close> is the list of its key/value pairs in the order the loop visits
  them (any order; the keys of a Go map are distinct), \<^verbatim>\<open>nil\<close> is \<open>None\<close>.
\<close>

definition mergeEnv ::
  "(string \<Rightarrow> string option) \<Rightarrow> (string \<times> string) list option \<Rightarrow> string \<Rightarrow> string option" where
  "mergeEnv env addlEnv =
     (case addlEnv of
        None \<Rightarrow> env
      | Some kvs \<Rightarrow> fold (\<lambda>(k, v) m. m(k \<mapsto> v)) kvs env)"

text \<open>The closure \<^verbatim>\<open>prompt\<close> of \<^verbatim>\<open>instantiateEnv\<close>.\<close>

definition prompt ::
  "('x, 'tf) bootstrap_env \<Rightarrow> string \<Rightarrow> string \<Rightarrow> 'x world \<Rightarrow> (string \<times> error option) \<times> 'x world" where
  "prompt C key oldValue w =
     (case inputPrompt C (''Enter '' @ key @ ''?'') oldValue w of
        ((newValue, err), w') \<Rightarrow>
          if err \<noteq> None \<or> newValue = [] then ((oldValue, err), w')
          else ((newValue, None), w'))"

definition instantiateEnv ::
  "('x, 'tf) bootstrap_env \<Rightarrow> Command \<Rightarrow> globals \<Rightarrow> string \<Rightarrow> (string \<times> string) list option \<Rightarrow>
   'x world \<Rightarrow> outcome \<times> 'x world" where
  "instantiateEnv C cmd g rootPath addlEnv w =
     (case project g of
        None \<Rightarrow> (Panicked ''nil pointer dereference'', w)
      | Some p \<Rightarrow>
          let env = mergeEnv (baseEnv p) addlEnv in
          (case invoke (EvInstantiateDotEnv rootPath env (c_verbose cmd))
                  (InstantiateDotEnv C rootPath env (c_verbose cmd) (prompt C)) w of
             (err, w') \<Rightarrow> (Returned err, w')))"

section \<open>Tasks\<close>

text \<open>
  Modelled from the spec: the constants \<^verbatim>\<open>bootstrap.TaskInstall\<close> and
  \<^verbatim>\<open>bootstrap.TaskPostCreate\<close> are not in the sources at hand. The spec, 3: "two
  well-known names are reserved ("install", "post-create")".
\<close>

definition TaskInstall :: string where
  "TaskInstall = ''install''"

text \<open>Modelled from the spec: \<^verbatim>\<open>bootstrap.TaskPostCreate\<close>, see above.\<close>

definition TaskPostCreate :: string where
  "TaskPostCreate = ''post-create''"

text \<open>
  Modelled from the spec: \<^verbatim>\<open>bootstrap.NewTask\<close> is not in the sources at hand. The
  spec, 6: "newTask(taskFile, rootPath, taskName, verbose) -> (executableUnit,
  error)"; 3: "a name resolved against a parsed task file ... an unresolved name
  when no task file provides it is a terminal error for that invocation only".
  The parsed task file is the map from the names of its tasks to their executable
  units.
\<close>

definition NewTask_spec ::
  "(string \<Rightarrow> 'x task option) \<Rightarrow> string \<Rightarrow> string \<Rightarrow> bool \<Rightarrow> 'x world \<Rightarrow>
   ('x task option \<times> error option) \<times> 'x world" where
  "NewTask_spec tf rootPath taskName verbose w =
     (case tf taskName of
        None \<Rightarrow> ((None, Some (Err (''task not found: '' @ taskName))), w)
      | Some unit \<Rightarrow> ((Some unit, None), w))"

text \<open>
  \<^verbatim>\<open>doPostCreate\<close>. \<^verbatim>\<open>if task == nil || err != nil { return nil }\<close>: the task runs
  only when \<^verbatim>\<open>NewTask\<close> returned a unit and no error.
\<close>

definition doPostCreate ::
  "('x, 'tf) bootstrap_env \<Rightarrow> Command \<Rightarrow> string \<Rightarrow> bool \<Rightarrow> 'x world \<Rightarrow> error option \<times> 'x world" where
  "doPostCreate C cmd rootPath verbose w =
     (case invoke (EvParseTaskfile rootPath) (ParseTaskfile C rootPath) w of
        ((tf, Some err), w1) \<Rightarrow> (Some err, w1)
      | ((tf, None), w1) \<Rightarrow>
          (case invoke (EvNewTask rootPath TaskPostCreate verbose)
                  (NewTask C tf rootPath TaskPostCreate verbose) w1 of
             ((Some task, None), w2) \<Rightarrow>
               (case spinnerRun (spinnerErr C) ''Cleaning up...''
                       (invoke (EvRunTask TaskPostCreate) task) w2 of
                  ((cmdErr, Some err), w3) \<Rightarrow> (Some err, w3)
                | ((cmdErr, None), w3) \<Rightarrow> (cmdErr, w3))
           | ((task, err), w2) \<Rightarrow> (None, w2)))"

text \<open>
  \<^verbatim>\<open>doInstall\<close>. It checks \<^verbatim>\<open>err\<close> only: a nil unit with a nil error is called,
  which panics.
\<close>

definition doInstall ::
  "('x, 'tf) bootstrap_env \<Rightarrow> string \<Rightarrow> string \<Rightarrow> bool \<Rightarrow> 'x world \<Rightarrow> outcome \<times> 'x world" where
  "doInstall C task rootPath verbose w =
     (case invoke (EvParseTaskfile rootPath) (ParseTaskfile C rootPath) w of
        ((tf, Some err), w1) \<Rightarrow> (Returned (Some err), w1)
      | ((tf, None), w1) \<Rightarrow>
          (case invoke (EvNewTask rootPath task verbose)
                  (NewTask C tf rootPath task verbose) w1 of
             ((install, Some err), w2) \<Rightarrow> (Returned (Some err), w2)
           | ((None, None), w2) \<Rightarrow> (Panicked ''call of nil func'', w2)
           | ((Some install, None), w2) \<Rightarrow>
               (case spinnerRun (spinnerErr C) ''Installing...''
                       (invoke (EvRunTask task) install) w2 of
                  ((cmdErr, Some err), w3) \<Rightarrow> (Returned (Some err), w3)
                | ((cmdErr, None), w3) \<Rightarrow> (Returned cmdErr, w3))))"

section \<open>setupTemplate\<close>

text \<open>\<^verbatim>\<open>appNameRegex\<close>, \<^verbatim>\<open>^[a-zA-Z_][a-zA-Z0-9_-]*$\<close>, on the bytes of the string.\<close>

definition isLetter :: "char \<Rightarrow> bool" where
  "isLetter c = (let n = (of_char c :: nat) in (65 \<le> n \<and> n \<le> 90) \<or> (97 \<le> n \<and> n \<le> 122))"

definition isDigit :: "char \<Rightarrow> bool" where
  "isDigit c = (let n = (of_char c :: nat) in 48 \<le> n \<and> n \<le> 57)"

definition appNameRegex_MatchString :: "string \<Rightarrow> bool" where
  "appNameRegex_MatchString s =
     (case s of
        [] \<Rightarrow> False
      | c # cs \<Rightarrow>
          (isLetter c \<or> c = CHR ''_'') \<and>
          list_all (\<lambda>d. isLetter d \<or> isDigit d \<or> d = CHR ''_'' \<or> d = CHR ''-'') cs)"

text \<open>The validator of the "Application Name" input.\<close>

definition validateAppName :: "filesystem \<Rightarrow> string \<Rightarrow> error option" where
  "validateAppName f s =
     (if length s < 3 then Some (Err ''name is too short'')
      else if \<not> appNameRegex_MatchString s then Some (Err ''try a simpler name'')
      else if exists_path f s then Some (Err ''that name is in use'')
      else None)"

text \<open>
  Lines 170 to 191: the templates to choose from, of the sandbox or of the
  catalog. \<open>Inl\<close> is the error \<^verbatim>\<open>setupTemplate\<close> returns.
\<close>

definition fetchTemplateOptions ::
  "('x, 'tf) bootstrap_env \<Rightarrow> Command \<Rightarrow> globals \<Rightarrow> 'x world \<Rightarrow> (error + Template list) \<times> 'x world" where
  "fetchTemplateOptions C cmd g w =
     (if sandboxID g \<noteq> [] then
        (case invoke EvRequireToken (requireToken C cmd) w of
           ((token, Some err), w1) \<Rightarrow> (Inl err, w1)
         | ((token, None), w1) \<Rightarrow>
             if templateURL g = [] then
               (case invoke (EvFetchSandboxDetails (sandboxID g) token (serverURL g))
                       (FetchSandboxDetails C (sandboxID g) token (serverURL g)) w1 of
                  ((childTemplates, Some err), w2) \<Rightarrow> (Inl err, w2)
                | ((childTemplates, None), w2) \<Rightarrow>
                    if length childTemplates = 0
                    then (Inl (Err ''no child templates found for sandbox''), w2)
                    else (Inr childTemplates, w2))
             else (Inr [], w1))
      else
        (case invoke EvFetchTemplates (FetchTemplates C) w of
           ((templateOptions, Some err), w1) \<Rightarrow> (Inl err, w1)
         | ((templateOptions, None), w1) \<Rightarrow> (Inr templateOptions, w1)))"

text \<open>
  Lines 194 to 217: a select prompt when neither name nor URL is given; the first
  template of that name when a name is given.
\<close>

definition selectTemplate :: "globals \<Rightarrow> Template list \<Rightarrow> error + (field list \<times> globals)" where
  "selectTemplate g templateOptions =
     (if templateName g = [] \<and> templateURL g = [] then
        Inr ([SelectField ''Select Template'' (templateURL g)
                (map (\<lambda>t. (t_Name t, t_URL t)) templateOptions)], g)
      else if templateName g \<noteq> [] then
        (let g' = (case find (\<lambda>t. t_Name t = templateName g) templateOptions of
                     Some t \<Rightarrow> g\<lparr>template := Some t, templateURL := t_URL t\<rparr>
                   | None \<Rightarrow> g)
         in if template g' = None
            then Inl (Err (''template not found: '' @ templateName g))
            else Inr ([], g'))
      else Inr ([], g))"

text \<open>Lines 219 to 239: the application's name, prompted for when no argument gives it.\<close>

definition nameApp :: "Command \<Rightarrow> globals \<Rightarrow> field list \<Rightarrow> field list \<times> globals" where
  "nameApp cmd g preinstallPrompts =
     (let g1 = g\<lparr>appName := args_First cmd\<rparr> in
      if appName g1 = [] then
        (let g2 = g1\<lparr>appName := sandboxID g1\<rparr>
         in (preinstallPrompts @
               [InputField ''Application Name'' ''my-app'' (appName g2) validateAppName], g2))
      else (preinstallPrompts, g1))"

text \<open>
  Lines 241 to 248: the form writes the chosen URL to \<^verbatim>\<open>templateURL\<close> and the
  entered name to \<^verbatim>\<open>appName\<close>, for the fields it has. It writes through the
  bound pointers while it runs, so also when it returns an error: its values are
  what the variables hold when it returns.
\<close>

fun bindFormValues :: "field list \<Rightarrow> form_values \<Rightarrow> globals \<Rightarrow> globals" where
  "bindFormValues [] vals g = g"
| "bindFormValues (SelectField _ _ _ # rest) vals g =
     bindFormValues rest vals (g\<lparr>templateURL := chosenURL vals\<rparr>)"
| "bindFormValues (InputField _ _ _ _ # rest) vals g =
     bindFormValues rest vals (g\<lparr>appName := enteredName vals\<rparr>)"

definition runPrompts ::
  "('x, 'tf) bootstrap_env \<Rightarrow> field list \<Rightarrow> globals \<Rightarrow> 'x world \<Rightarrow>
   (error option \<times> globals) \<times> 'x world" where
  "runPrompts C preinstallPrompts g w =
     (if length preinstallPrompts > 0 then
        (case invoke EvRunForm (RunForm C preinstallPrompts) w of
           ((vals, Some err), w1) \<Rightarrow> ((Some err, bindFormValues preinstallPrompts vals g), w1)
         | ((vals, None), w1) \<Rightarrow> ((None, bindFormValues preinstallPrompts vals g), w1))
      else ((None, g), w))"

text \<open>Lines 250 to 266: clone, instantiate the environment, install or post-create.\<close>

definition createApp ::
  "('x, 'tf) bootstrap_env \<Rightarrow> Command \<Rightarrow> globals \<Rightarrow> 'x world \<Rightarrow> outcome \<times> 'x world" where
  "createApp C cmd g w =
     (case cloneTemplate C cmd (templateURL g) (appName g) (Println ''Cloning template...'' w) of
        (Some err, w1) \<Rightarrow> (Returned (Some err), w1)
      | (None, w1) \<Rightarrow>
          (case instantiateEnv C cmd g (appName g) (Some [(''LIVEKIT_SANDBOX_ID'', sandboxID g)])
                  (Println ''Instantiating environment...'' w1) of
             (Returned None, w2) \<Rightarrow>
               if c_install cmd then
                 doInstall C TaskInstall (appName g) (c_verbose cmd)
                   (Println ''Installing template...'' w2)
               else
                 (case doPostCreate C cmd (appName g) (c_verbose cmd) w2 of
                    (err, w3) \<Rightarrow> (Returned err, w3))
           | (failed, w2) \<Rightarrow> (failed, w2)))"

definition setupTemplate ::
  "('x, 'tf) bootstrap_env \<Rightarrow> Command \<Rightarrow> globals \<Rightarrow> 'x world \<Rightarrow> (outcome \<times> globals) \<times> 'x world" where
  "setupTemplate C cmd g w =
     (if templateName g \<noteq> [] \<and> templateURL g \<noteq> [] then
        ((Returned (Some (Err ''only one of template or template-url can be specified'')), g), w)
      else
        (case fetchTemplateOptions C cmd g w of
           (Inl err, w1) \<Rightarrow> ((Returned (Some err), g), w1)
         | (Inr templateOptions, w1) \<Rightarrow>
             (case selectTemplate g templateOptions of
                Inl err \<Rightarrow> ((Returned (Some err), g), w1)
              | Inr (prompts, g1) \<Rightarrow>
                  (case nameApp cmd g1 prompts of
                     (preinstallPrompts, g2) \<Rightarrow>
                       (case runPrompts C preinstallPrompts g2 w1 of
                          ((Some err, g3), w2) \<Rightarrow> ((Returned (Some err), g3), w2)
                        | ((None, g3), w2) \<Rightarrow>
                            (case createApp C cmd g3 w2 of
                               (r, w3) \<Rightarrow> ((r, g3), w3)))))))"

section \<open>requireProject\<close>

text \<open>
  The collaborators of \<^verbatim>\<open>requireProject\<close>: the loaders of the project and of the
  configuration file, the two \<^verbatim>\<open>huh\<close> prompts (the select writes \<^verbatim>\<open>project\<close>
  through its pointer while it runs, so also when it returns an error; the confirm
  writes \<^verbatim>\<open>shouldAuth\<close>) and the authentication flow.
\<close>

record 'x project_env =
  loadProjectDetails :: "Command \<Rightarrow> 'x world \<Rightarrow> (ProjectConfig option \<times> error option) \<times> 'x world"
  loadProjectConfig :: "Command \<Rightarrow> 'x world \<Rightarrow> error option \<times> 'x world"
  selectProject ::
    "(string \<times> ProjectConfig) list \<Rightarrow> 'x world \<Rightarrow> (ProjectConfig option \<times> error option) \<times> 'x world"
  confirmAuth :: "'x world \<Rightarrow> (bool \<times> error option) \<times> 'x world"
  initAuth :: "Command \<Rightarrow> 'x world \<Rightarrow> error option \<times> 'x world"
  tryAuthIfNeeded :: "Command \<Rightarrow> 'x world \<Rightarrow> error option \<times> 'x world"

text \<open>
  One invocation of \<^verbatim>\<open>requireProject\<close> either returns (\<open>Done\<close>) or reaches
  \<^verbatim>\<open>return requireProject(ctx, cmd)\<close> (\<open>Retry\<close>, with the variables and the world
  of that call).
\<close>

datatype ('r, 's) step = Done 'r | Retry 's

definition requireProject_body ::
  "'x project_env \<Rightarrow> Command \<Rightarrow> globals \<Rightarrow> 'x world \<Rightarrow>
   ((error option \<times> globals) \<times> 'x world, globals \<times> 'x world) step" where
  "requireProject_body P cmd g w =
     (case invoke EvLoadProjectDetails (loadProjectDetails P cmd) w of
        ((pc, None), w1) \<Rightarrow> Done ((None, g\<lparr>project := pc\<rparr>), w1)
      | ((pc, Some _), w1) \<Rightarrow>
          (let g1 = g\<lparr>project := pc\<rparr> in
           case invoke EvLoadProjectConfig (loadProjectConfig P cmd) w1 of
             (Some err, w2) \<Rightarrow> Done ((Some err, g1), w2)
           | (None, w2) \<Rightarrow>
               if length (cliProjects w2) > 0 then
                 (case invoke EvSelectProject
                         (selectProject P
                            (map (\<lambda>p. (p_Name p @ '' ['' @ p_APIKey p @ '']'', p)) (cliProjects w2)))
                         w2 of
                    ((chosen, Some err), w3) \<Rightarrow> Done ((Some err, g1\<lparr>project := chosen\<rparr>), w3)
                  | ((chosen, None), w3) \<Rightarrow> Done ((None, g1\<lparr>project := chosen\<rparr>), w3))
               else
                 (case invoke EvConfirmAuth (confirmAuth P) w2 of
                    ((shouldAuth, Some err), w3) \<Rightarrow> Done ((Some err, g1), w3)
                  | ((shouldAuth, None), w3) \<Rightarrow>
                      if shouldAuth then
                        (case invoke EvInitAuth (initAuth P cmd) w3 of
                           (_, w4) \<Rightarrow>
                             (case invoke EvTryAuthIfNeeded (tryAuthIfNeeded P cmd) w4 of
                                (Some err, w5) \<Rightarrow> Done ((Some err, g1), w5)
                              | (None, w5) \<Rightarrow> Retry (g1, w5)))
                      else Done ((Some (Err ''no project selected''), g1), w3))))"

text \<open>
  \<^verbatim>\<open>requireProject\<close>, with a bound on the number of its invocations (the first and
  the recursive ones): \<open>None\<close> when the bound is reached before one returns.
\<close>

fun requireProject ::
  "nat \<Rightarrow> 'x project_env \<Rightarrow> Command \<Rightarrow> globals \<Rightarrow> 'x world \<Rightarrow>
   ((error option \<times> globals) \<times> 'x world) option" where
  "requireProject 0 P cmd g w = None"
| "requireProject (Suc n) P cmd g w =
     (case requireProject_body P cmd g w of
        Done r \<Rightarrow> Some r
      | Retry (g', w') \<Rightarrow> requireProject n P cmd g' w')"

section \<open>The dispatch commands\<close>

record AgentDispatch =
  d_Id :: string
  d_Room :: string
  d_AgentName :: string
  d_Metadata :: string

text \<open>
  \<^verbatim>\<open>cli.ShowSubcommandHelp\<close>, the three calls of the dispatch client and
  \<^verbatim>\<open>utils.NewGuid\<close>. A list request is its room and dispatch ID, a create request
  its room, agent name and metadata.
\<close>

record 'x dispatch_env =
  ShowSubcommandHelp :: "Command \<Rightarrow> 'x world \<Rightarrow> error option \<times> 'x world"
  ListDispatch ::
    "string \<Rightarrow> string \<Rightarrow> 'x world \<Rightarrow> (AgentDispatch option list \<times> error option) \<times> 'x world"
  CreateDispatch ::
    "string \<Rightarrow> string \<Rightarrow> string \<Rightarrow> 'x world \<Rightarrow> (AgentDispatch option \<times> error option) \<times> 'x world"
  DeleteDispatch ::
    "string \<Rightarrow> string \<Rightarrow> 'x world \<Rightarrow> (AgentDispatch option \<times> error option) \<times> 'x world"
  NewGuid :: "string \<Rightarrow> 'x world \<Rightarrow> string \<times> 'x world"

definition PrintJSON :: "'x world \<Rightarrow> 'x world" where
  "PrintJSON w = w\<lparr>evlog := evlog w @ [EvPrintJSON]\<rparr>"

definition Printf :: "string \<Rightarrow> 'x world \<Rightarrow> 'x world" where
  "Printf format w = w\<lparr>evlog := evlog w @ [EvPrintf format]\<rparr>"

text \<open>The table of \<^verbatim>\<open>listDispatchAndPrint\<close>: the headers, then one row for each item that is not nil.\<close>

definition dispatchTable :: "AgentDispatch option list \<Rightarrow> string list list" where
  "dispatchTable items =
     [''DispatchID'', ''Room'', ''AgentName'', ''Metadata''] #
     concat (map (\<lambda>item. case item of
                            None \<Rightarrow> []
                          | Some d \<Rightarrow> [[d_Id d, d_Room d, d_AgentName d, d_Metadata d]]) items)"

definition listDispatchAndPrint ::
  "'x dispatch_env \<Rightarrow> Command \<Rightarrow> string \<Rightarrow> string \<Rightarrow> 'x world \<Rightarrow> error option \<times> 'x world" where
  "listDispatchAndPrint D cmd room dispatchId w =
     (if length (c_args cmd) = 0 then invoke EvShowSubcommandHelp (ShowSubcommandHelp D cmd) w
      else
        (case invoke (EvListDispatch room dispatchId) (ListDispatch D room dispatchId)
                (if c_verbose cmd then PrintJSON w else w) of
           ((res, Some err), w1) \<Rightarrow> (Some err, w1)
         | ((res, None), w1) \<Rightarrow>
             if c_json cmd then (None, PrintJSON w1)
             else (None, w1\<lparr>evlog := evlog w1 @ [EvPrintTable (dispatchTable res)]\<rparr>)))"

definition getAgentDispatch :: "'x dispatch_env \<Rightarrow> Command \<Rightarrow> 'x world \<Rightarrow> error option \<times> 'x world" where
  "getAgentDispatch D cmd w =
     (if length (c_args cmd) = 0 then invoke EvShowSubcommandHelp (ShowSubcommandHelp D cmd) w
      else if args_First cmd = [] then (Some (Err ''room name is required''), w)
      else if args_Get1 cmd = [] then (Some (Err ''dispatch ID is required''), w)
      else listDispatchAndPrint D cmd (args_First cmd) (args_Get1 cmd) w)"

definition listAgentDispatches :: "'x dispatch_env \<Rightarrow> Command \<Rightarrow> 'x world \<Rightarrow> error option \<times> 'x world" where
  "listAgentDispatches D cmd w =
     (if length (c_args cmd) = 0 then invoke EvShowSubcommandHelp (ShowSubcommandHelp D cmd) w
      else if args_First cmd = [] then (Some (Err ''room name is required''), w)
      else listDispatchAndPrint D cmd (args_First cmd) [] w)"

definition createAgentDispatch :: "'x dispatch_env \<Rightarrow> Command \<Rightarrow> 'x world \<Rightarrow> error option \<times> 'x world" where
  "createAgentDispatch D cmd w =
     (case (if c_new_room cmd then invoke (EvNewGuid ''room-'') (NewGuid D ''room-'') w
            else (c_room cmd, w)) of
        (room, w1) \<Rightarrow>
          if room = [] then
            (case invoke EvShowSubcommandHelp (ShowSubcommandHelp D cmd) w1 of
               (_, w2) \<Rightarrow> (Some (Err ''room or new-room is required''), w2))
          else if c_agent_name cmd = [] then
            (case invoke EvShowSubcommandHelp (ShowSubcommandHelp D cmd) w1 of
               (_, w2) \<Rightarrow> (Some (Err ''agent-name is required''), w2))
          else
            (case invoke (EvCreateDispatch room (c_agent_name cmd) (c_metadata cmd))
                    (CreateDispatch D room (c_agent_name cmd) (c_metadata cmd))
                    (if c_verbose cmd then PrintJSON w1 else w1) of
               ((info, Some err), w2) \<Rightarrow> (Some err, w2)
             | ((info, None), w2) \<Rightarrow>
                 if c_json cmd then (None, PrintJSON w2)
                 else (None, Printf (''Dispatch created: %v'' @ [CHR 0x0A]) w2)))"

definition deleteAgentDispatch :: "'x dispatch_env \<Rightarrow> Command \<Rightarrow> 'x world \<Rightarrow> error option \<times> 'x world" where
  "deleteAgentDispatch D cmd w =
     (if length (c_args cmd) = 0 then invoke EvShowSubcommandHelp (ShowSubcommandHelp D cmd) w
      else if args_First cmd = [] then (Some (Err ''room name is required''), w)
      else if args_Get1 cmd = [] then (Some (Err ''dispatch ID is required''), w)
      else
        (case invoke (EvDeleteDispatch (args_First cmd) (args_Get1 cmd))
                (DeleteDispatch D (args_First cmd) (args_Get1 cmd)) w of
           ((info, Some err), w1) \<Rightarrow> (Some err, w1)
         | ((info, None), w1) \<Rightarrow>
             if c_json cmd then (None, PrintJSON w1)
             else (None, Printf (''Dispatch deleted: %v'' @ [CHR 0x0A]) w1)))"

section \<open>Concrete runs\<close>

text \<open>
  A world with no directories and no configured project, a command line
  \<^verbatim>\<open>lk app create myapp\<close>, and collaborators that all succeed: the clone creates the
  target with a \<^verbatim>\<open>.git\<close> directory and a task file that has an install task only.
\<close>

definition emptyWorld :: "unit world" where
  "emptyWorld = \<lparr>fs = [], cliProjects = [], evlog = [], ext = ()\<rparr>"

definition plainCommand :: Command where
  "plainCommand =
     \<lparr>c_args = [''myapp''], c_verbose = False, c_install = False, c_json = False,
      c_room = [], c_agent_name = [], c_metadata = [], c_new_room = False\<rparr>"

definition demoProject :: ProjectConfig where
  "demoProject = \<lparr>p_Name = ''demo'', p_URL = ''wss://x'', p_APIKey = ''key'', p_APISecret = ''secret''\<rparr>"

definition demoGlobals :: globals where
  "demoGlobals =
     \<lparr>template = None, templateName = [], templateURL = ''u'', sandboxID = [],
      appName = [], project = Some demoProject, serverURL = ''s''\<rparr>"

definition demoTaskfile :: "string \<Rightarrow> unit task option" where
  "demoTaskfile = [''install'' \<mapsto> (\<lambda>w. (None, w))]"

definition demoEnv :: "(unit, string \<Rightarrow> unit task option) bootstrap_env" where
  "demoEnv =
     \<lparr>requireToken = (\<lambda>cmd w. ((''tok'', None), w)),
      FetchSandboxDetails = (\<lambda>sid tok url w. (([], None), w)),
      FetchTemplates = (\<lambda>w. (([\<lparr>t_Name = ''foo'', t_URL = ''u''\<rparr>], None), w)),
      RunForm = (\<lambda>fields w. ((\<lparr>chosenURL = ''u'', enteredName = ''myapp''\<rparr>, None), w)),
      gitClone = (\<lambda>url t w. ((''ok'', None), w\<lparr>fs := (t, [''.git'', ''taskfile.yaml'']) # fs w\<rparr>)),
      spinnerErr = (\<lambda>title w. None),
      spinnerAbort = (\<lambda>title w. None),
      inputPrompt = (\<lambda>title old w. (([], None), w)),
      InstantiateDotEnv = (\<lambda>root env verbose ask w. (None, w)),
      ParseTaskfile = (\<lambda>root w. ((demoTaskfile, None), w)),
      NewTask = NewTask_spec\<rparr>"

text \<open>The same, with a clone that fails after it has written a partial copy.\<close>

definition failingCloneEnv :: "(unit, string \<Rightarrow> unit task option) bootstrap_env" where
  "failingCloneEnv =
     demoEnv\<lparr>gitClone :=
       (\<lambda>url t w. ((''fatal'', Some (Err ''exit status 128'')), w\<lparr>fs := (t, [''.git'']) # fs w\<rparr>))\<rparr>"

text \<open>
  The collaborators that all succeed, but for a spinner whose \<^verbatim>\<open>Run\<close> returns an
  error before the clone has written anything (no terminal, an interrupt).
\<close>

definition interruptedEnv :: "(unit, string \<Rightarrow> unit task option) bootstrap_env" where
  "interruptedEnv =
     demoEnv\<lparr>spinnerAbort := (\<lambda>title w. Some (Err ''interrupted'', BeforeClone))\<rparr>"


text \<open>\<^verbatim>\<open>lk app create myapp --template foo --template-url http://x\<close>.\<close>

definition bothGlobals :: globals where
  "bothGlobals = demoGlobals\<lparr>templateName := ''foo'', templateURL := ''http://x''\<rparr>"

text \<open>
  \<^verbatim>\<open>lk app create --sandbox abc123\<close>, for a sandbox with no child templates, and
  the same when no access token can be obtained.
\<close>

definition sandboxGlobals :: globals where
  "sandboxGlobals = demoGlobals\<lparr>templateURL := [], sandboxID := ''abc123''\<rparr>"

definition noTokenEnv :: "(unit, string \<Rightarrow> unit task option) bootstrap_env" where
  "noTokenEnv = demoEnv\<lparr>requireToken := (\<lambda>cmd w. (([], Some (Err ''unauthenticated'')), w))\<rparr>"

text \<open>And when the request for the sandbox fails.\<close>

definition noSandboxEnv :: "(unit, string \<Rightarrow> unit task option) bootstrap_env" where
  "noSandboxEnv =
     demoEnv\<lparr>FetchSandboxDetails :=
       (\<lambda>sid tok url w. (([], Some (Err ''sandbox not found'')), w))\<rparr>"

text \<open>An extra set that names the sandbox and overrides the service URL.\<close>

definition overrideExtra :: "(string \<times> string) list" where
  "overrideExtra = [(''LIVEKIT_SANDBOX_ID'', ''abc123''), (''LIVEKIT_URL'', ''wss://other'')]"

text \<open>Collaborators with no task file, and with a task file that \<^verbatim>\<open>NewTask\<close> rejects.\<close>

definition noTaskfileEnv :: "(unit, string \<Rightarrow> unit task option) bootstrap_env" where
  "noTaskfileEnv =
     demoEnv\<lparr>ParseTaskfile := (\<lambda>root w. ((Map.empty, Some (Err ''no taskfile'')), w))\<rparr>"

definition brokenTaskEnv :: "(unit, string \<Rightarrow> unit task option) bootstrap_env" where
  "brokenTaskEnv =
     demoEnv\<lparr>NewTask := (\<lambda>tf root name verbose w. ((None, Some (Err ''bad taskfile'')), w))\<rparr>"

text \<open>
  Collaborators whose task file has a \<^verbatim>\<open>post-create\<close> task that fails, and the
  variables of \<^verbatim>\<open>lk app create myapp --template-url u\<close> once the name is set.
\<close>

definition failingPostCreateEnv :: "(unit, string \<Rightarrow> unit task option) bootstrap_env" where
  "failingPostCreateEnv =
     demoEnv\<lparr>ParseTaskfile :=
       (\<lambda>root w. (([''post-create'' \<mapsto> (\<lambda>w. (Some (Err ''exit status 1''), w))], None), w))\<rparr>"

text \<open>
  Collaborators whose \<^verbatim>\<open>install\<close> task fails, with \<^verbatim>\<open>lk app create myapp --install\<close>;
  and collaborators that cannot write the environment file.
\<close>

definition failingInstallEnv :: "(unit, string \<Rightarrow> unit task option) bootstrap_env" where
  "failingInstallEnv =
     demoEnv\<lparr>ParseTaskfile :=
       (\<lambda>root w. (([''install'' \<mapsto> (\<lambda>w. (Some (Err ''exit status 2''), w))], None), w))\<rparr>"

definition installCommand :: Command where
  "installCommand = plainCommand\<lparr>c_install := True\<rparr>"

definition failingDotEnvEnv :: "(unit, string \<Rightarrow> unit task option) bootstrap_env" where
  "failingDotEnvEnv =
     demoEnv\<lparr>InstantiateDotEnv :=
       (\<lambda>root env verbose ask w. (Some (Err ''cannot write .env''), w))\<rparr>"

definition myappGlobals :: globals where
  "myappGlobals = demoGlobals\<lparr>appName := ''myapp''\<rparr>"

text \<open>
  A world whose \<open>ext\<close> counts the authentications still needed before a project
  loads: no project is configured locally, the user accepts every detour and every
  authentication succeeds.
\<close>

definition detourWorld :: "nat \<Rightarrow> nat world" where
  "detourWorld k = \<lparr>fs = [], cliProjects = [], evlog = [], ext = k\<rparr>"

definition stubbornAuth :: "nat project_env" where
  "stubbornAuth =
     \<lparr>loadProjectDetails =
        (\<lambda>cmd w. if ext w = 0 then ((Some demoProject, None), w)
                  else ((None, Some (Err ''no project'')), w)),
      loadProjectConfig = (\<lambda>cmd w. (None, w)),
      selectProject = (\<lambda>options w. ((None, None), w)),
      confirmAuth = (\<lambda>w. ((True, None), w)),
      initAuth = (\<lambda>cmd w. (None, w)),
      tryAuthIfNeeded = (\<lambda>cmd w. (None, w\<lparr>ext := ext w - 1\<rparr>))\<rparr>"

text \<open>The same, where no authentication ever makes a project load.\<close>

definition foreverAuth :: "nat project_env" where
  "foreverAuth =
     stubbornAuth\<lparr>loadProjectDetails := (\<lambda>cmd w. ((None, Some (Err ''no project'')), w))\<rparr>"

text \<open>The same as \<open>stubbornAuth\<close>, with a user who declines to authenticate.\<close>

definition decliningAuth :: "nat project_env" where
  "decliningAuth = stubbornAuth\<lparr>confirmAuth := (\<lambda>w. ((False, None), w))\<rparr>"

definition noProjectGlobals :: globals where
  "noProjectGlobals = demoGlobals\<lparr>project := None\<rparr>"

text \<open>The events of one authentication detour.\<close>

definition detourEvents :: "event list" where
  "detourEvents =
     [EvLoadProjectDetails, EvLoadProjectConfig, EvConfirmAuth, EvInitAuth, EvTryAuthIfNeeded]"

text \<open>
  A dispatch service with no dispatches, a help printer that returns nil (as that
  of \<^verbatim>\<open>urfave/cli\<close> does), and command lines with no argument, with a room
  name only, with an empty room name, with \<^verbatim>\<open>--room room1\<close> only and with
  \<^verbatim>\<open>--new-room\<close> only.
\<close>

definition quietDispatch :: "unit dispatch_env" where
  "quietDispatch =
     \<lparr>ShowSubcommandHelp = (\<lambda>cmd w. (None, w)),
      ListDispatch = (\<lambda>room dispatchId w. (([], None), w)),
      CreateDispatch = (\<lambda>room agent metadata w. ((None, None), w)),
      DeleteDispatch = (\<lambda>room dispatchId w. ((None, None), w)),
      NewGuid = (\<lambda>prefix w. (prefix @ ''1'', w))\<rparr>"

definition noArgs :: Command where
  "noArgs = plainCommand\<lparr>c_args := []\<rparr>"

definition roomOnly :: Command where
  "roomOnly = plainCommand\<lparr>c_args := [''room1'']\<rparr>"

definition emptyRoom :: Command where
  "emptyRoom = plainCommand\<lparr>c_args := [[], ''id1'']\<rparr>"

definition roomFlagOnly :: Command where
  "roomFlagOnly = noArgs\<lparr>c_room := ''room1''\<rparr>"

definition newRoomOnly :: Command where
  "newRoomOnly = noArgs\<lparr>c_new_room := True\<rparr>"

section \<open>The staged clone\<close>

subsection \<open>The staging path is new\<close>

lemma firstUnused_length: "length cand \<le> length (firstUnused used cand n)"
proof (induction n arbitrary: cand)
  case 0
  then show ?case by simp
next
  case (Suc n)
  have "length (cand @ ''_'') \<le> length (firstUnused used (cand @ ''_'') n)"
    by (rule Suc.IH)
  then show ?case by simp
qed

lemma longer_count_less:
  assumes "cand \<in> set used"
  shows "length (filter (\<lambda>u. length (cand @ ''_'') \<le> length u) used)
       < length (filter (\<lambda>u. length cand \<le> length u) used)"
proof -
  let ?Q = "\<lambda>u. length cand \<le> length u"
  let ?P = "\<lambda>u. length (cand @ ''_'') \<le> length u"
  have eq: "filter ?P used = filter ?P (filter ?Q used)"
    by (induction used) auto
  have "cand \<in> set (filter ?Q used)"
    using assms by simp
  moreover have "\<not> ?P cand"
    by simp
  ultimately have "length (filter ?P (filter ?Q used)) < length (filter ?Q used)"
    by (rule length_filter_less)
  with eq show ?thesis by simp
qed

lemma firstUnused_unused:
  "length (filter (\<lambda>u. length cand \<le> length u) used) \<le> n \<Longrightarrow>
   firstUnused used cand n \<notin> set used"
proof (induction n arbitrary: cand)
  case 0
  then have "filter (\<lambda>u. length cand \<le> length u) used = []"
    by simp
  then have "cand \<notin> set used"
    by (auto simp: filter_empty_conv)
  then show ?case by simp
next
  case (Suc n)
  show ?case
  proof (cases "cand \<in> set used")
    case True
    from longer_count_less [OF True] Suc.prems
    have "length (filter (\<lambda>u. length (cand @ ''_'') \<le> length u) used) \<le> n"
      by linarith
    then have "firstUnused used (cand @ ''_'') n \<notin> set used"
      by (rule Suc.IH)
    with True show ?thesis by simp
  next
    case False
    then show ?thesis by simp
  qed
qed

lemma stagingPath_unused: "stagingPath f p \<notin> fst ` set f"
proof -
  have "length (filter (\<lambda>u. length (p @ ''.tmp'') \<le> length u) (map fst f)) \<le> length f"
    by (metis length_filter_le length_map)
  then have "firstUnused (map fst f) (p @ ''.tmp'') (length f) \<notin> set (map fst f)"
    by (rule firstUnused_unused)
  then show ?thesis by (simp add: stagingPath_def)
qed

lemma stagingPath_not_exists: "\<not> exists_path f (stagingPath f p)"
  using stagingPath_unused [of f p] by (simp add: exists_path_def map_of_eq_None_iff)

lemma stagingPath_distinct: "stagingPath f p \<noteq> p"
proof
  assume "stagingPath f p = p"
  then have "length (stagingPath f p) = length p"
    by simp
  moreover have "length (p @ ''.tmp'') \<le> length (stagingPath f p)"
    unfolding stagingPath_def by (rule firstUnused_length)
  ultimately show False by simp
qed

subsection \<open>The returns of cloneTemplate\<close>

lemma invoke_evlog: "evlog (snd (invoke ev f w)) = evlog w @ [ev]"
  by (simp add: invoke_def split: prod.splits)

lemma invoke_eq: "invoke ev f w = (fst (f w), (snd (f w))\<lparr>evlog := evlog w @ [ev]\<rparr>)"
  by (simp add: invoke_def split: prod.splits)

lemma cloneAction_unfold:
  "cloneAction C url t w =
     (case gitClone C url t w of
        (res, w1) \<Rightarrow>
          (res, os_RemoveAll (Entry t ''.git'') (w1\<lparr>evlog := evlog w @ [EvGitClone url t]\<rparr>)))"
  by (simp add: cloneAction_def invoke_def split: prod.splits)

lemma cloneAction_evlog:
  "evlog (snd (cloneAction C url t w)) =
     evlog w @ [EvGitClone url t, EvRemoveAll (Entry t ''.git'')]"
  by (simp add: cloneAction_unfold split: prod.splits)

lemma entries_map_entry_removeAll: "n \<notin> set (entries (AList.map_entry p (removeAll n) f) p)"
  by (simp add: entries_def map_of_map_entry split: option.splits)

lemma cloneAction_no_git: "''.git'' \<notin> set (entries (fs (snd (cloneAction C url t w))) t)"
  by (simp add: cloneAction_unfold entries_map_entry_removeAll split: prod.splits)

lemma cloneTemplate_aborted:
  assumes "spinnerAbort C (''Cloning template from '' @ url) w = Some (e, p)"
  shows "cloneTemplate C cmd url name w =
     (Some e,
      cleanup (stagingPath (fs w) name)
        (case p of
           BeforeClone \<Rightarrow> w
         | AfterClone \<Rightarrow>
             snd (invoke (EvGitClone url (stagingPath (fs w) name))
                    (gitClone C url (stagingPath (fs w) name)) w)))"
  using assms
  by (simp add: cloneTemplate_def useTempPath_def Let_def split: progress.splits)

lemma cloneTemplate_unfold:
  assumes "spinnerAbort C (''Cloning template from '' @ url) w = None"
  shows "cloneTemplate C cmd url name w =
     (let t = stagingPath (fs w) name in
      case cloneAction C url t w of
        ((out, cmdErr), w1) \<Rightarrow>
          (case spinnerErr C (''Cloning template from '' @ url) w1 of
             Some err \<Rightarrow> (Some err, cleanup t w1)
           | None \<Rightarrow>
               let w2 = (if out \<noteq> [] \<and> (cmdErr \<noteq> None \<or> c_verbose cmd)
                         then Println out w1 else w1)
               in (case cmdErr of
                     Some e \<Rightarrow> (Some e, cleanup t w2)
                   | None \<Rightarrow> (case relocate t name w2 of (r, w3) \<Rightarrow> (r, cleanup t w3)))))"
  using assms
  by (simp add: cloneTemplate_def useTempPath_def spinnerRun_def Let_def
      split: prod.splits option.splits)

lemma cloneTemplate_pending_aborted:
  assumes "spinnerAbort C (''Cloning template from '' @ url) w = Some (e, p)"
  shows "cloneTemplate_pending C cmd url name w v =
     (case p of
        BeforeClone \<Rightarrow> snd (cloneAction C url (stagingPath (fs w) name) v)
      | AfterClone \<Rightarrow> os_RemoveAll (Entry (stagingPath (fs w) name) ''.git'') v)"
  using assms
  by (simp add: cloneTemplate_pending_def useTempPath_def Let_def split: progress.splits)

lemma cloneTemplate_pending_ended:
  assumes "spinnerAbort C (''Cloning template from '' @ url) w = None"
  shows "cloneTemplate_pending C cmd url name w v = v"
  using assms by (simp add: cloneTemplate_pending_def useTempPath_def Let_def)

lemma fs_cleanup: "fs (cleanup t w) = AList.delete t (fs w)"
  by (simp add: cleanup_def)

lemma evlog_cleanup: "evlog (cleanup t w) = evlog w @ [EvRemoveAll (Dir t)]"
  by (simp add: cleanup_def)

lemma not_exists_after_cleanup: "\<not> exists_path (fs (cleanup t w)) t"
  by (simp add: fs_cleanup exists_path_def AList.delete_conv')

lemma cloneTemplate_ends_with_cleanup:
  "\<exists>w'. snd (cloneTemplate C cmd url name w) = cleanup (stagingPath (fs w) name) w'"
proof (cases "spinnerAbort C (''Cloning template from '' @ url) w")
  case None
  then show ?thesis
    by (auto simp: cloneTemplate_unfold Let_def split: prod.splits option.splits)
next
  case (Some a)
  then obtain e p where "spinnerAbort C (''Cloning template from '' @ url) w = Some (e, p)"
    by (cases a) simp
  then have "snd (cloneTemplate C cmd url name w) =
      cleanup (stagingPath (fs w) name)
        (case p of
           BeforeClone \<Rightarrow> w
         | AfterClone \<Rightarrow>
             snd (invoke (EvGitClone url (stagingPath (fs w) name))
                    (gitClone C url (stagingPath (fs w) name)) w))"
    by (simp only: cloneTemplate_aborted snd_conv)
  then show ?thesis
    by blast
qed

lemma relocate_then_cleanup:
  assumes "relocate t name w = (None, w')" and "t \<noteq> name"
  shows "fs (cleanup t w') = (name, entries (fs w) t) # AList.delete t (fs w)"
  using assms
  by (auto simp: relocate_def Let_def fs_cleanup entries_def AList.delete_idem
      split: option.splits if_splits)

lemma relocate_evlog: "evlog (snd (relocate t name w)) = evlog w @ [EvRename t name]"
  by (simp add: relocate_def Let_def split: option.splits)

text \<open>
  When the action of the spinner has ended before \<^verbatim>\<open>cloneTemplate\<close> returns, the
  staging path, which differs from the final name and was not in use, does not
  exist after the call, whatever it returned, and nothing is left to run.
\<close>

lemma cloneTemplate_staging_removed_when_ended:
  assumes "spinnerAbort C (''Cloning template from '' @ url) w = None"
  shows "stagingPath (fs w) name \<noteq> name \<and>
     \<not> exists_path (fs w) (stagingPath (fs w) name) \<and>
     \<not> exists_path
         (fs (cloneTemplate_pending C cmd url name w (snd (cloneTemplate C cmd url name w))))
         (stagingPath (fs w) name)"
proof -
  obtain w' where w': "snd (cloneTemplate C cmd url name w) = cleanup (stagingPath (fs w) name) w'"
    using cloneTemplate_ends_with_cleanup by blast
  show ?thesis
    by (simp add: cloneTemplate_pending_ended [OF assms] w' not_exists_after_cleanup
        stagingPath_distinct stagingPath_not_exists)
qed

lemma stagingPath_myapp: "stagingPath [] ''myapp'' = ''myapp.tmp''"
  by (simp add: stagingPath_def)

lemma fs_emptyWorld: "fs emptyWorld = []"
  by (simp add: emptyWorld_def)

lemma cloneTemplate_failingCloneEnv:
  "cloneTemplate failingCloneEnv plainCommand ''u'' ''myapp'' emptyWorld =
     (Some (Err ''exit status 128''),
      \<lparr>fs = [], cliProjects = [],
       evlog = [EvGitClone ''u'' ''myapp.tmp'', EvRemoveAll (Entry ''myapp.tmp'' ''.git''),
                EvPrintln ''fatal'', EvRemoveAll (Dir ''myapp.tmp'')],
       ext = ()\<rparr>)"
  by (simp add: cloneTemplate_unfold cloneAction_unfold stagingPath_myapp Let_def
      failingCloneEnv_def demoEnv_def emptyWorld_def plainCommand_def cleanup_def Println_def)


text \<open>
  C1. The claim: every invocation of \<^verbatim>\<open>cloneTemplate\<close> allocates a staging path
  other than the final name and defers its cleanup, so that the staging directory
  does not exist after the call has returned. The deferred cleanup does run at
  every return; but when \<^verbatim>\<open>Run\<close> of the spinner returns an error while the clone is
  still running, the cleanup runs first and the clone writes the staging directory
  afterwards. Here \<^verbatim>\<open>cloneTemplate\<close> returns the spinner's error, the cleanup is its
  only event, and once the action has ended the staging directory
  \<^verbatim>\<open>myapp.tmp\<close> exists, with the cloned files and without \<^verbatim>\<open>.git\<close>.
\<close>

theorem cloneTemplate_staging_left_behind:
  "cloneTemplate interruptedEnv plainCommand ''u'' ''myapp'' emptyWorld =
     (Some (Err ''interrupted''),
      \<lparr>fs = [], cliProjects = [], evlog = [EvRemoveAll (Dir ''myapp.tmp'')], ext = ()\<rparr>) \<and>
   cloneTemplate_pending interruptedEnv plainCommand ''u'' ''myapp'' emptyWorld
     (snd (cloneTemplate interruptedEnv plainCommand ''u'' ''myapp'' emptyWorld)) =
     \<lparr>fs = [(''myapp.tmp'', [''taskfile.yaml''])], cliProjects = [],
      evlog = [EvRemoveAll (Dir ''myapp.tmp''), EvGitClone ''u'' ''myapp.tmp'',
               EvRemoveAll (Entry ''myapp.tmp'' ''.git'')],
      ext = ()\<rparr> \<and>
   exists_path
     (fs (cloneTemplate_pending interruptedEnv plainCommand ''u'' ''myapp'' emptyWorld
            (snd (cloneTemplate interruptedEnv plainCommand ''u'' ''myapp'' emptyWorld))))
     ''myapp.tmp''"
proof -
  have a: "spinnerAbort interruptedEnv t v = Some (Err ''interrupted'', BeforeClone)" for t v
    by (simp add: interruptedEnv_def)
  have g: "gitClone interruptedEnv url t v =
      ((''ok'', None), v\<lparr>fs := (t, [''.git'', ''taskfile.yaml'']) # fs v\<rparr>)" for url t v
    by (simp add: interruptedEnv_def demoEnv_def)
  have c: "cloneTemplate interruptedEnv plainCommand ''u'' ''myapp'' emptyWorld =
     (Some (Err ''interrupted''),
      \<lparr>fs = [], cliProjects = [], evlog = [EvRemoveAll (Dir ''myapp.tmp'')], ext = ()\<rparr>)"
    by (simp add: cloneTemplate_aborted [OF a] fs_emptyWorld stagingPath_myapp cleanup_def)
      (simp add: emptyWorld_def)
  have p: "cloneTemplate_pending interruptedEnv plainCommand ''u'' ''myapp'' emptyWorld
      \<lparr>fs = [], cliProjects = [], evlog = [EvRemoveAll (Dir ''myapp.tmp'')], ext = ()\<rparr> =
     \<lparr>fs = [(''myapp.tmp'', [''taskfile.yaml''])], cliProjects = [],
      evlog = [EvRemoveAll (Dir ''myapp.tmp''), EvGitClone ''u'' ''myapp.tmp'',
               EvRemoveAll (Entry ''myapp.tmp'' ''.git'')],
      ext = ()\<rparr>"
    by (simp add: cloneTemplate_pending_aborted [OF a] fs_emptyWorld stagingPath_myapp
        cloneAction_unfold g)
  show ?thesis
    by (simp add: c p exists_path_def)
qed

theorem cloneTemplate_staging_left_behind_witness:
  "fst (cloneTemplate interruptedEnv plainCommand ''u'' ''myapp'' emptyWorld) =
     Some (Err ''interrupted'') \<and>
   filter fileOp
     (evlog (cloneTemplate_pending interruptedEnv plainCommand ''u'' ''myapp'' emptyWorld
               (snd (cloneTemplate interruptedEnv plainCommand ''u'' ''myapp'' emptyWorld)))) =
     [EvRemoveAll (Dir ''myapp.tmp''), EvRemoveAll (Entry ''myapp.tmp'' ''.git'')] \<and>
   entries
     (fs (cloneTemplate_pending interruptedEnv plainCommand ''u'' ''myapp'' emptyWorld
            (snd (cloneTemplate interruptedEnv plainCommand ''u'' ''myapp'' emptyWorld))))
     ''myapp.tmp'' = [''taskfile.yaml'']"
proof -
  note t = cloneTemplate_staging_left_behind
  have c: "cloneTemplate interruptedEnv plainCommand ''u'' ''myapp'' emptyWorld =
     (Some (Err ''interrupted''),
      \<lparr>fs = [], cliProjects = [], evlog = [EvRemoveAll (Dir ''myapp.tmp'')], ext = ()\<rparr>)"
    by (rule t [THEN conjunct1])
  have "cloneTemplate_pending interruptedEnv plainCommand ''u'' ''myapp'' emptyWorld
     (snd (cloneTemplate interruptedEnv plainCommand ''u'' ''myapp'' emptyWorld)) =
     \<lparr>fs = [(''myapp.tmp'', [''taskfile.yaml''])], cliProjects = [],
      evlog = [EvRemoveAll (Dir ''myapp.tmp''), EvGitClone ''u'' ''myapp.tmp'',
               EvRemoveAll (Entry ''myapp.tmp'' ''.git'')],
      ext = ()\<rparr>"
    by (rule t [THEN conjunct2, THEN conjunct1])
  then have p: "cloneTemplate_pending interruptedEnv plainCommand ''u'' ''myapp'' emptyWorld
     \<lparr>fs = [], cliProjects = [], evlog = [EvRemoveAll (Dir ''myapp.tmp'')], ext = ()\<rparr> =
     \<lparr>fs = [(''myapp.tmp'', [''taskfile.yaml''])], cliProjects = [],
      evlog = [EvRemoveAll (Dir ''myapp.tmp''), EvGitClone ''u'' ''myapp.tmp'',
               EvRemoveAll (Entry ''myapp.tmp'' ''.git'')],
      ext = ()\<rparr>"
    by (simp add: c)
  show ?thesis
    by (simp add: c p entries_def)
qed
lemma cloneTemplate_not_aborted:
  assumes "fst (cloneTemplate C cmd url name w) = None"
  shows "spinnerAbort C (''Cloning template from '' @ url) w = None"
proof (cases "spinnerAbort C (''Cloning template from '' @ url) w")
  case None
  then show ?thesis .
next
  case (Some a)
  then obtain e p where "spinnerAbort C (''Cloning template from '' @ url) w = Some (e, p)"
    by (cases a) simp
  then have "fst (cloneTemplate C cmd url name w) = Some e"
    by (simp only: cloneTemplate_aborted fst_conv)
  with assms show ?thesis
    by simp
qed


lemma cloneTemplate_success:
  assumes act: "cloneAction C url (stagingPath (fs w) name) w = ((out, cmdErr), w1)"
    and none: "fst (cloneTemplate C cmd url name w) = None"
  shows "cmdErr = None \<and>
     fs (snd (cloneTemplate C cmd url name w)) =
       (name, entries (fs w1) (stagingPath (fs w) name)) #
       AList.delete (stagingPath (fs w) name) (fs w1)"
proof -
  let ?t = "stagingPath (fs w) name"
  let ?title = "''Cloning template from '' @ url"
  note u = cloneTemplate_unfold [OF cloneTemplate_not_aborted [OF none], of cmd name]
  define w2 where
    "w2 = (if out \<noteq> [] \<and> (cmdErr \<noteq> None \<or> c_verbose cmd) then Println out w1 else w1)"
  have fs2: "fs w2 = fs w1"
    by (simp add: w2_def Println_def)
  from none have sp: "spinnerErr C ?title w1 = None"
    by (auto simp: u act Let_def split: option.splits)
  from none sp have ce: "cmdErr = None"
    by (auto simp: u act Let_def split: option.splits)
  from sp ce have ct: "cloneTemplate C cmd url name w =
      (case relocate ?t name w2 of (r, w3) \<Rightarrow> (r, cleanup ?t w3))"
    by (simp add: u act w2_def Let_def)
  obtain r w3 where rel: "relocate ?t name w2 = (r, w3)"
    by (cases "relocate ?t name w2")
  from none ct rel have "r = None"
    by simp
  with rel have rel': "relocate ?t name w2 = (None, w3)"
    by simp
  have "fs (cleanup ?t w3) = (name, entries (fs w2) ?t) # AList.delete ?t (fs w2)"
    using rel' stagingPath_distinct by (rule relocate_then_cleanup)
  with ct rel fs2 ce show ?thesis
    by simp
qed

lemma cloneTemplate_success_exists:
  assumes "cloneTemplate C cmd url name w = (None, w')"
  shows "exists_path (fs w') name \<and> ''.git'' \<notin> set (entries (fs w') name)"
proof -
  let ?t = "stagingPath (fs w) name"
  obtain out cmdErr w1 where act: "cloneAction C url ?t w = ((out, cmdErr), w1)"
    by (metis surj_pair)
  have nogit: "''.git'' \<notin> set (entries (fs w1) ?t)"
    using cloneAction_no_git [of C url ?t w] by (simp add: act)
  from assms have "fst (cloneTemplate C cmd url name w) = None"
    by simp
  from cloneTemplate_success [OF act this] assms
  have "fs w' = (name, entries (fs w1) ?t) # AList.delete ?t (fs w1)"
    by simp
  with nogit show ?thesis
    by (simp add: exists_path_def entries_def)
qed








section \<open>The events of an invocation only grow\<close>

lemma prefix_invoke: "prefix (evlog w) (evlog (snd (invoke ev f w)))"
  by (simp add: invoke_evlog)

lemma prefix_Println: "prefix (evlog w) (evlog (Println s w))"
  by (simp add: Println_def)

lemma prefix_cleanup: "prefix (evlog w) (evlog (cleanup t w))"
  by (simp add: evlog_cleanup)

lemma prefix_relocate: "prefix (evlog w) (evlog (snd (relocate t name w)))"
  by (simp add: relocate_evlog)

lemma prefix_cloneAction: "prefix (evlog w) (evlog (snd (cloneAction C url t w)))"
  by (simp add: cloneAction_evlog)

lemma prefix_cloneTemplate_ended:
  assumes ab: "spinnerAbort C (''Cloning template from '' @ url) w = None"
  shows "prefix (evlog w) (evlog (snd (cloneTemplate C cmd url name w)))"
proof -
  let ?t = "stagingPath (fs w) name"
  let ?title = "''Cloning template from '' @ url"
  note u = cloneTemplate_unfold [OF ab, of cmd name]
  obtain out cmdErr w1 where act: "cloneAction C url ?t w = ((out, cmdErr), w1)"
    by (metis surj_pair)
  define w2 where
    "w2 = (if out \<noteq> [] \<and> (cmdErr \<noteq> None \<or> c_verbose cmd) then Println out w1 else w1)"
  have p1: "prefix (evlog w) (evlog w1)"
    using prefix_cloneAction [of w C url ?t] by (simp add: act)
  have "prefix (evlog w1) (evlog w2)"
    by (simp add: w2_def prefix_Println)
  with p1 have p2: "prefix (evlog w) (evlog w2)"
    by (rule prefix_order.trans)
  have p3: "prefix (evlog w) (evlog (snd (relocate ?t name w2)))"
    using p2 prefix_relocate by (rule prefix_order.trans)
  consider (spin) e where "spinnerErr C ?title w1 = Some e"
    | (fail) e where "spinnerErr C ?title w1 = None" and "cmdErr = Some e"
    | (ok) "spinnerErr C ?title w1 = None" and "cmdErr = None"
    by (cases "spinnerErr C ?title w1"; cases cmdErr) auto
  then have "\<exists>w'. prefix (evlog w) (evlog w') \<and>
      snd (cloneTemplate C cmd url name w) = cleanup ?t w'"
  proof cases
    case spin
    then have "snd (cloneTemplate C cmd url name w) = cleanup ?t w1"
      by (simp add: u act Let_def)
    with p1 show ?thesis by blast
  next
    case fail
    then have "snd (cloneTemplate C cmd url name w) = cleanup ?t w2"
      by (simp add: u act Let_def w2_def)
    with p2 show ?thesis by blast
  next
    case ok
    then have "snd (cloneTemplate C cmd url name w) = cleanup ?t (snd (relocate ?t name w2))"
      by (simp add: u act Let_def w2_def split: prod.splits)
    with p3 show ?thesis by blast
  qed
  then obtain w' where "prefix (evlog w) (evlog w')"
    and "snd (cloneTemplate C cmd url name w) = cleanup ?t w'"
    by blast
  then show ?thesis
    using prefix_cleanup [of w' ?t] by (simp add: prefix_order.trans)
qed

lemma prefix_cloneTemplate: "prefix (evlog w) (evlog (snd (cloneTemplate C cmd url name w)))"
proof (cases "spinnerAbort C (''Cloning template from '' @ url) w")
  case None
  then show ?thesis
    by (rule prefix_cloneTemplate_ended)
next
  case (Some a)
  then obtain e p where ab: "spinnerAbort C (''Cloning template from '' @ url) w = Some (e, p)"
    by (cases a) simp
  show ?thesis
    by (cases p) (simp_all add: cloneTemplate_aborted [OF ab] evlog_cleanup invoke_evlog)
qed

lemma prefix_spinnerRun:
  "(\<And>v. prefix (evlog v) (evlog (snd (action v)))) \<Longrightarrow>
   prefix (evlog w) (evlog (snd (spinnerRun sperr title action w)))"
  by (simp add: spinnerRun_def split: prod.splits) (metis snd_conv)

lemma prefix_instantiateEnv:
  "prefix (evlog w) (evlog (snd (instantiateEnv C cmd g rootPath addlEnv w)))"
  by (simp add: instantiateEnv_def Let_def invoke_eq split: option.splits)

lemma prefix_doPostCreate: "prefix (evlog w) (evlog (snd (doPostCreate C cmd rootPath verbose w)))"
  by (simp add: doPostCreate_def invoke_eq spinnerRun_def split: option.splits prod.splits)

lemma prefix_doInstall: "prefix (evlog w) (evlog (snd (doInstall C task rootPath verbose w)))"
  by (simp add: doInstall_def invoke_eq spinnerRun_def split: option.splits prod.splits)

lemma prefix_createApp: "prefix (evlog w) (evlog (snd (createApp C cmd g w)))"
proof -
  let ?w0 = "Println ''Cloning template...'' w"
  obtain r1 w1 where c: "cloneTemplate C cmd (templateURL g) (appName g) ?w0 = (r1, w1)"
    by (metis surj_pair)
  have p1: "prefix (evlog w) (evlog w1)"
    using prefix_Println [of w "''Cloning template...''"]
      prefix_cloneTemplate [of ?w0 C cmd "templateURL g" "appName g"]
    by (simp add: c)
  let ?w1' = "Println ''Instantiating environment...'' w1"
  obtain r2 w2 where i: "instantiateEnv C cmd g (appName g)
      (Some [(''LIVEKIT_SANDBOX_ID'', sandboxID g)]) ?w1' = (r2, w2)"
    by (metis surj_pair)
  have p2: "prefix (evlog w) (evlog w2)"
    using p1 prefix_Println [of w1 "''Instantiating environment...''"]
      prefix_instantiateEnv [of ?w1' C cmd g "appName g" "Some [(''LIVEKIT_SANDBOX_ID'', sandboxID g)]"]
    by (simp add: i)
  have p3: "prefix (evlog w)
      (evlog (snd (doInstall C TaskInstall (appName g) (c_verbose cmd)
         (Println ''Installing template...'' w2))))"
    using p2 prefix_Println [of w2 "''Installing template...''"]
      prefix_doInstall [of "Println ''Installing template...'' w2" C TaskInstall "appName g" "c_verbose cmd"]
    by (meson prefix_order.trans)
  have p4: "prefix (evlog w) (evlog (snd (doPostCreate C cmd (appName g) (c_verbose cmd) w2)))"
    using p2 prefix_doPostCreate [of w2 C cmd "appName g" "c_verbose cmd"]
    by (meson prefix_order.trans)
  show ?thesis
    using p1 p2 p3 p4
    by (auto simp: createApp_def c i split: option.splits prod.splits outcome.splits)
qed

lemma prefix_runPrompts: "prefix (evlog w) (evlog (snd (runPrompts C prompts g w)))"
  by (simp add: runPrompts_def invoke_eq split: option.splits prod.splits)

lemma prefix_fetch_setupTemplate:
  assumes "\<not> (templateName g \<noteq> [] \<and> templateURL g \<noteq> [])"
  shows "prefix (evlog (snd (fetchTemplateOptions C cmd g w))) (evlog (snd (setupTemplate C cmd g w)))"
proof -
  obtain r1 w1 where f: "fetchTemplateOptions C cmd g w = (r1, w1)"
    by (metis surj_pair)
  have rest: "prefix (evlog w1) (evlog (snd (createApp C cmd g' (snd (runPrompts C ps g'' w1)))))"
    for g' g'' ps
    using prefix_runPrompts [of w1 C ps g''] prefix_createApp
    by (meson prefix_order.trans)
  show ?thesis
    using assms rest prefix_runPrompts [of w1 C]
    by (auto simp: setupTemplate_def f split: sum.splits prod.splits option.splits)
      (metis snd_conv)+
qed

section \<open>Template resolution\<close>

text \<open>
  C3. When both the template name and the template URL are given,
  \<^verbatim>\<open>setupTemplate\<close> returns the error "only one of template or template-url can be
  specified", whatever the collaborators (the catalog among them) would answer, and
  leaves the variables and the world as they were: no collaborator is called, no
  event is added, the file system is the same.
\<close>

theorem setupTemplate_name_and_url:
  "templateName g \<noteq> [] \<Longrightarrow> templateURL g \<noteq> [] \<Longrightarrow>
   setupTemplate C cmd g w =
     ((Returned (Some (Err ''only one of template or template-url can be specified'')), g), w)"
  by (simp add: setupTemplate_def)

theorem setupTemplate_name_and_url_witness:
  "templateName bothGlobals = ''foo'' \<and> templateURL bothGlobals = ''http://x'' \<and>
   setupTemplate demoEnv plainCommand bothGlobals emptyWorld =
     ((Returned (Some (Err ''only one of template or template-url can be specified'')),
       bothGlobals), emptyWorld)"
proof -
  have n: "templateName bothGlobals = ''foo''" and u: "templateURL bothGlobals = ''http://x''"
    by (simp_all add: bothGlobals_def)
  have "templateName bothGlobals \<noteq> []" and "templateURL bothGlobals \<noteq> []"
    by (simp_all add: n u)
  then have "setupTemplate demoEnv plainCommand bothGlobals emptyWorld =
     ((Returned (Some (Err ''only one of template or template-url can be specified'')),
       bothGlobals), emptyWorld)"
    by (rule setupTemplate_name_and_url)
  with n u show ?thesis by simp
qed

lemma fetchTemplateOptions_sandbox:
  assumes "sandboxID g \<noteq> []" and "templateURL g = []"
    and "requireToken C cmd w = ((token, tokErr), v1)"
    and "FetchSandboxDetails C (sandboxID g) token (serverURL g)
           (v1\<lparr>evlog := evlog w @ [EvRequireToken]\<rparr>) = ((children, fetchErr), v2)"
  shows "fetchTemplateOptions C cmd g w =
     (case tokErr of
        Some e \<Rightarrow> (Inl e, v1\<lparr>evlog := evlog w @ [EvRequireToken]\<rparr>)
      | None \<Rightarrow>
          (case fetchErr of
             Some e \<Rightarrow> Inl e
           | None \<Rightarrow>
               if children = [] then Inl (Err ''no child templates found for sandbox'')
               else Inr children,
           v2\<lparr>evlog := evlog w @
              [EvRequireToken, EvFetchSandboxDetails (sandboxID g) token (serverURL g)]\<rparr>))"
  using assms by (simp add: fetchTemplateOptions_def invoke_eq split: option.splits)

text \<open>
  C4 (amended). In every invocation of \<^verbatim>\<open>setupTemplate\<close> with a sandbox ID and no
  template URL, the access token is required first; when that fails,
  \<^verbatim>\<open>setupTemplate\<close> returns its error and nothing is fetched. Otherwise the child
  templates of the sandbox are fetched (with that token and the server URL); when
  the fetch fails its error is returned, and when it returns no child template the
  error is "no child templates found for sandbox"; in both cases the token and the
  fetch are the only events, so no clone was attempted.
\<close>

theorem setupTemplate_sandbox_children:
  assumes sb: "sandboxID g \<noteq> []" and nourl: "templateURL g = []"
    and tok: "requireToken C cmd w = ((token, tokErr), v1)"
    and fetch: "FetchSandboxDetails C (sandboxID g) token (serverURL g)
           (v1\<lparr>evlog := evlog w @ [EvRequireToken]\<rparr>) = ((children, fetchErr), v2)"
  shows
    "(\<forall>e. tokErr = Some e \<longrightarrow>
        setupTemplate C cmd g w =
          ((Returned (Some e), g), v1\<lparr>evlog := evlog w @ [EvRequireToken]\<rparr>)) \<and>
     (tokErr = None \<longrightarrow>
        prefix (evlog w @ [EvRequireToken,
                  EvFetchSandboxDetails (sandboxID g) token (serverURL g)])
          (evlog (snd (setupTemplate C cmd g w))) \<and>
        (\<forall>e. fetchErr = Some e \<longrightarrow>
           setupTemplate C cmd g w =
             ((Returned (Some e), g),
              v2\<lparr>evlog := evlog w @
                 [EvRequireToken, EvFetchSandboxDetails (sandboxID g) token (serverURL g)]\<rparr>)) \<and>
        (fetchErr = None \<and> children = [] \<longrightarrow>
           setupTemplate C cmd g w =
             ((Returned (Some (Err ''no child templates found for sandbox'')), g),
              v2\<lparr>evlog := evlog w @
                 [EvRequireToken, EvFetchSandboxDetails (sandboxID g) token (serverURL g)]\<rparr>)))"
proof -
  note f = fetchTemplateOptions_sandbox [OF sb nourl tok fetch]
  have notboth: "\<not> (templateName g \<noteq> [] \<and> templateURL g \<noteq> [])"
    by (simp add: nourl)
  have a: "\<forall>e. tokErr = Some e \<longrightarrow>
      setupTemplate C cmd g w =
        ((Returned (Some e), g), v1\<lparr>evlog := evlog w @ [EvRequireToken]\<rparr>)"
    by (simp add: setupTemplate_def nourl f)
  have b: "tokErr = None \<longrightarrow>
      prefix (evlog w @ [EvRequireToken, EvFetchSandboxDetails (sandboxID g) token (serverURL g)])
        (evlog (snd (setupTemplate C cmd g w)))"
    using prefix_fetch_setupTemplate [OF notboth, of C cmd w] by (auto simp: f)
  have c: "\<forall>e. tokErr = None \<and> fetchErr = Some e \<longrightarrow>
      setupTemplate C cmd g w =
        ((Returned (Some e), g),
         v2\<lparr>evlog := evlog w @
            [EvRequireToken, EvFetchSandboxDetails (sandboxID g) token (serverURL g)]\<rparr>)"
    by (simp add: setupTemplate_def nourl f)
  have d: "tokErr = None \<and> fetchErr = None \<and> children = [] \<longrightarrow>
      setupTemplate C cmd g w =
        ((Returned (Some (Err ''no child templates found for sandbox'')), g),
         v2\<lparr>evlog := evlog w @
            [EvRequireToken, EvFetchSandboxDetails (sandboxID g) token (serverURL g)]\<rparr>)"
    by (simp add: setupTemplate_def nourl f)
  from a b c d show ?thesis
    by blast
qed

theorem setupTemplate_sandbox_children_witness:
  "sandboxID sandboxGlobals = ''abc123'' \<and> templateURL sandboxGlobals = [] \<and>
   setupTemplate demoEnv plainCommand sandboxGlobals emptyWorld =
     ((Returned (Some (Err ''no child templates found for sandbox'')), sandboxGlobals),
      emptyWorld\<lparr>evlog := [EvRequireToken, EvFetchSandboxDetails ''abc123'' ''tok'' ''s'']\<rparr>) \<and>
   setupTemplate noTokenEnv plainCommand sandboxGlobals emptyWorld =
     ((Returned (Some (Err ''unauthenticated'')), sandboxGlobals),
      emptyWorld\<lparr>evlog := [EvRequireToken]\<rparr>) \<and>
   setupTemplate noSandboxEnv plainCommand sandboxGlobals emptyWorld =
     ((Returned (Some (Err ''sandbox not found'')), sandboxGlobals),
      emptyWorld\<lparr>evlog := [EvRequireToken, EvFetchSandboxDetails ''abc123'' ''tok'' ''s'']\<rparr>)"
proof -
  have sb: "sandboxID sandboxGlobals = ''abc123''" and nourl: "templateURL sandboxGlobals = []"
    and su: "serverURL sandboxGlobals = ''s''"
    by (simp_all add: sandboxGlobals_def demoGlobals_def)
  have sb': "sandboxID sandboxGlobals \<noteq> []"
    by (simp add: sb)
  have tok: "requireToken demoEnv plainCommand emptyWorld = ((''tok'', None), emptyWorld)"
    by (simp add: demoEnv_def)
  have fetch: "FetchSandboxDetails demoEnv (sandboxID sandboxGlobals) ''tok''
      (serverURL sandboxGlobals) (emptyWorld\<lparr>evlog := evlog emptyWorld @ [EvRequireToken]\<rparr>) =
      (([], None), emptyWorld\<lparr>evlog := evlog emptyWorld @ [EvRequireToken]\<rparr>)"
    by (simp add: demoEnv_def)
  have tok2: "requireToken noTokenEnv plainCommand emptyWorld =
      (([], Some (Err ''unauthenticated'')), emptyWorld)"
    by (simp add: noTokenEnv_def demoEnv_def)
  have fetch2: "FetchSandboxDetails noTokenEnv (sandboxID sandboxGlobals) []
      (serverURL sandboxGlobals) (emptyWorld\<lparr>evlog := evlog emptyWorld @ [EvRequireToken]\<rparr>) =
      (([], None), emptyWorld\<lparr>evlog := evlog emptyWorld @ [EvRequireToken]\<rparr>)"
    by (simp add: noTokenEnv_def demoEnv_def)
  have tok3: "requireToken noSandboxEnv plainCommand emptyWorld = ((''tok'', None), emptyWorld)"
    by (simp add: noSandboxEnv_def demoEnv_def)
  have fetch3: "FetchSandboxDetails noSandboxEnv (sandboxID sandboxGlobals) ''tok''
      (serverURL sandboxGlobals) (emptyWorld\<lparr>evlog := evlog emptyWorld @ [EvRequireToken]\<rparr>) =
      (([], Some (Err ''sandbox not found'')),
       emptyWorld\<lparr>evlog := evlog emptyWorld @ [EvRequireToken]\<rparr>)"
    by (simp add: noSandboxEnv_def)
  have e0: "evlog emptyWorld = []"
    by (simp add: emptyWorld_def)
  from setupTemplate_sandbox_children [OF sb' nourl tok fetch]
       setupTemplate_sandbox_children [OF sb' nourl tok2 fetch2]
       setupTemplate_sandbox_children [OF sb' nourl tok3 fetch3]
  show ?thesis
    by (simp add: sb nourl su e0)
qed

text \<open>
  The claim as stated fails when no access token can be obtained: the sandbox ID is
  set and the template URL is empty, and nothing is fetched.
\<close>

theorem setupTemplate_sandbox_not_fetched:
  "sandboxID sandboxGlobals \<noteq> [] \<and> templateURL sandboxGlobals = [] \<and>
   fst (fst (setupTemplate noTokenEnv plainCommand sandboxGlobals emptyWorld)) =
     Returned (Some (Err ''unauthenticated'')) \<and>
   evlog (snd (setupTemplate noTokenEnv plainCommand sandboxGlobals emptyWorld)) =
     [EvRequireToken]"
  by (simp add: setupTemplate_def fetchTemplateOptions_def invoke_eq sandboxGlobals_def
      demoGlobals_def noTokenEnv_def demoEnv_def emptyWorld_def)

section \<open>The environment\<close>

lemma fold_update_override:
  "distinct (map fst kvs) \<Longrightarrow> fold (\<lambda>(k, v) m. m(k \<mapsto> v)) kvs m = m ++ map_of kvs"
proof (induction kvs arbitrary: m)
  case Nil
  then show ?case by simp
next
  case (Cons kv kvs)
  obtain k v where kv: "kv = (k, v)"
    by (cases kv)
  from Cons.prems kv have k: "k \<notin> fst ` set kvs" and d: "distinct (map fst kvs)"
    by auto
  from k have none: "map_of kvs k = None"
    by (simp add: map_of_eq_None_iff)
  have "fold (\<lambda>(k, v) m. m(k \<mapsto> v)) (kv # kvs) m =
      fold (\<lambda>(k, v) m. m(k \<mapsto> v)) kvs (m(k \<mapsto> v))"
    by (simp add: kv)
  also have "\<dots> = m(k \<mapsto> v) ++ map_of kvs"
    by (rule Cons.IH [OF d])
  also have "\<dots> = m ++ map_of (kv # kvs)"
    using none by (auto simp: kv map_add_def fun_eq_iff split: option.splits)
  finally show ?case .
qed

lemma dom_baseEnv: "dom (baseEnv p) = {''LIVEKIT_URL'', ''LIVEKIT_API_KEY'', ''LIVEKIT_API_SECRET''}"
  by (auto simp: baseEnv_def)

lemma instantiateEnv_unfold:
  "project g = Some p \<Longrightarrow>
   instantiateEnv C cmd g rootPath addlEnv w =
     (Returned (fst (InstantiateDotEnv C rootPath (mergeEnv (baseEnv p) addlEnv) (c_verbose cmd)
                       (prompt C) w)),
      (snd (InstantiateDotEnv C rootPath (mergeEnv (baseEnv p) addlEnv) (c_verbose cmd)
              (prompt C) w))
      \<lparr>evlog := evlog w @
         [EvInstantiateDotEnv rootPath (mergeEnv (baseEnv p) addlEnv) (c_verbose cmd)]\<rparr>)"
  by (simp add: instantiateEnv_def invoke_eq Let_def)

text \<open>
  C5. In every invocation of \<^verbatim>\<open>instantiateEnv\<close> with the project \<open>p\<close> and the extra
  set \<open>extra\<close> (a Go map: its keys are distinct), the environment handed to
  \<^verbatim>\<open>bootstrap.InstantiateDotEnv\<close> is \<open>baseEnv p ++ map_of extra\<close>: its keys are exactly
  the three required ones (\<^verbatim>\<open>LIVEKIT_URL\<close>, \<^verbatim>\<open>LIVEKIT_API_KEY\<close>, \<^verbatim>\<open>LIVEKIT_API_SECRET\<close>,
  from \<open>p\<close>) and those of \<open>extra\<close>, a key of \<open>extra\<close> has the value \<open>extra\<close> gives it,
  and every other key keeps its base value. With no extra set (\<^verbatim>\<open>nil\<close>) it is the
  base environment.
\<close>

theorem instantiateEnv_environment:
  assumes p: "project g = Some p" and d: "distinct (map fst extra)"
  shows
    "baseEnv p ''LIVEKIT_URL'' = Some (p_URL p) \<and>
     baseEnv p ''LIVEKIT_API_KEY'' = Some (p_APIKey p) \<and>
     baseEnv p ''LIVEKIT_API_SECRET'' = Some (p_APISecret p) \<and>
     dom (baseEnv p ++ map_of extra) =
       {''LIVEKIT_URL'', ''LIVEKIT_API_KEY'', ''LIVEKIT_API_SECRET''} \<union> fst ` set extra \<and>
     (\<forall>k v. (k, v) \<in> set extra \<longrightarrow> (baseEnv p ++ map_of extra) k = Some v) \<and>
     (\<forall>k. k \<notin> fst ` set extra \<longrightarrow> (baseEnv p ++ map_of extra) k = baseEnv p k) \<and>
     instantiateEnv C cmd g rootPath (Some extra) w =
       (Returned (fst (InstantiateDotEnv C rootPath (baseEnv p ++ map_of extra) (c_verbose cmd)
                         (prompt C) w)),
        (snd (InstantiateDotEnv C rootPath (baseEnv p ++ map_of extra) (c_verbose cmd)
                (prompt C) w))
        \<lparr>evlog := evlog w @
           [EvInstantiateDotEnv rootPath (baseEnv p ++ map_of extra) (c_verbose cmd)]\<rparr>) \<and>
     instantiateEnv C cmd g rootPath None w =
       (Returned (fst (InstantiateDotEnv C rootPath (baseEnv p) (c_verbose cmd) (prompt C) w)),
        (snd (InstantiateDotEnv C rootPath (baseEnv p) (c_verbose cmd) (prompt C) w))
        \<lparr>evlog := evlog w @ [EvInstantiateDotEnv rootPath (baseEnv p) (c_verbose cmd)]\<rparr>)"
proof -
  have m: "mergeEnv (baseEnv p) (Some extra) = baseEnv p ++ map_of extra"
    using d by (simp add: mergeEnv_def fold_update_override)
  have m0: "mergeEnv (baseEnv p) None = baseEnv p"
    by (simp add: mergeEnv_def)
  have b: "baseEnv p ''LIVEKIT_URL'' = Some (p_URL p) \<and>
     baseEnv p ''LIVEKIT_API_KEY'' = Some (p_APIKey p) \<and>
     baseEnv p ''LIVEKIT_API_SECRET'' = Some (p_APISecret p)"
    by (simp add: baseEnv_def)
  have dm: "dom (baseEnv p ++ map_of extra) =
       {''LIVEKIT_URL'', ''LIVEKIT_API_KEY'', ''LIVEKIT_API_SECRET''} \<union> fst ` set extra"
    by (simp add: dom_baseEnv dom_map_of_conv_image_fst Un_commute)
  have ov: "\<forall>k v. (k, v) \<in> set extra \<longrightarrow> (baseEnv p ++ map_of extra) k = Some v"
    using d by (simp add: map_add_Some_iff)
  have keep: "\<forall>k. k \<notin> fst ` set extra \<longrightarrow> (baseEnv p ++ map_of extra) k = baseEnv p k"
  proof (intro allI impI)
    fix k
    assume "k \<notin> fst ` set extra"
    then have "map_of extra k = None"
      by (simp add: map_of_eq_None_iff)
    then show "(baseEnv p ++ map_of extra) k = baseEnv p k"
      by (simp add: map_add_def)
  qed
  from b dm ov keep instantiateEnv_unfold [OF p, of C cmd rootPath "Some extra" w]
    instantiateEnv_unfold [OF p, of C cmd rootPath None w]
  show ?thesis
    by (simp only: m m0)
qed

theorem instantiateEnv_environment_witness:
  "project demoGlobals = Some demoProject \<and> distinct (map fst overrideExtra) \<and>
   (baseEnv demoProject ++ map_of overrideExtra) ''LIVEKIT_URL'' = Some ''wss://other'' \<and>
   (baseEnv demoProject ++ map_of overrideExtra) ''LIVEKIT_API_KEY'' = Some ''key'' \<and>
   (baseEnv demoProject ++ map_of overrideExtra) ''LIVEKIT_API_SECRET'' = Some ''secret'' \<and>
   (baseEnv demoProject ++ map_of overrideExtra) ''LIVEKIT_SANDBOX_ID'' = Some ''abc123'' \<and>
   dom (baseEnv demoProject ++ map_of overrideExtra) =
     {''LIVEKIT_URL'', ''LIVEKIT_API_KEY'', ''LIVEKIT_API_SECRET'', ''LIVEKIT_SANDBOX_ID''} \<and>
   instantiateEnv demoEnv plainCommand demoGlobals ''myapp'' (Some overrideExtra) emptyWorld =
     (Returned None,
      emptyWorld\<lparr>evlog :=
        [EvInstantiateDotEnv ''myapp'' (baseEnv demoProject ++ map_of overrideExtra) False]\<rparr>)"
proof -
  have p: "project demoGlobals = Some demoProject"
    by (simp add: demoGlobals_def)
  have d: "distinct (map fst overrideExtra)"
    by (simp add: overrideExtra_def)
  have mem: "(''LIVEKIT_URL'', ''wss://other'') \<in> set overrideExtra"
    "(''LIVEKIT_SANDBOX_ID'', ''abc123'') \<in> set overrideExtra"
    by (simp_all add: overrideExtra_def)
  have nomem: "''LIVEKIT_API_KEY'' \<notin> fst ` set overrideExtra"
    "''LIVEKIT_API_SECRET'' \<notin> fst ` set overrideExtra"
    by (simp_all add: overrideExtra_def)
  have keys: "fst ` set overrideExtra = {''LIVEKIT_SANDBOX_ID'', ''LIVEKIT_URL''}"
    by (simp add: overrideExtra_def)
  have run: "InstantiateDotEnv demoEnv root env verbose ask emptyWorld = (None, emptyWorld)"
    for root env verbose ask
    by (simp add: demoEnv_def)
  have vb: "c_verbose plainCommand = False"
    by (simp add: plainCommand_def)
  have e0: "evlog emptyWorld = []"
    by (simp add: emptyWorld_def)
  have pr: "p_APIKey demoProject = ''key''" "p_APISecret demoProject = ''secret''"
    by (simp_all add: demoProject_def)
  note t = instantiateEnv_environment [OF p d, of demoEnv plainCommand "''myapp''" emptyWorld]
  from t mem have "(baseEnv demoProject ++ map_of overrideExtra) ''LIVEKIT_URL'' = Some ''wss://other''"
    and "(baseEnv demoProject ++ map_of overrideExtra) ''LIVEKIT_SANDBOX_ID'' = Some ''abc123''"
    by blast+
  moreover from t nomem pr
  have "(baseEnv demoProject ++ map_of overrideExtra) ''LIVEKIT_API_KEY'' = Some ''key''"
    and "(baseEnv demoProject ++ map_of overrideExtra) ''LIVEKIT_API_SECRET'' = Some ''secret''"
    by auto
  moreover from t keys
  have "dom (baseEnv demoProject ++ map_of overrideExtra) =
     {''LIVEKIT_URL'', ''LIVEKIT_API_KEY'', ''LIVEKIT_API_SECRET'', ''LIVEKIT_SANDBOX_ID''}"
    by auto
  moreover from t
  have "instantiateEnv demoEnv plainCommand demoGlobals ''myapp'' (Some overrideExtra) emptyWorld =
     (Returned None,
      emptyWorld\<lparr>evlog :=
        [EvInstantiateDotEnv ''myapp'' (baseEnv demoProject ++ map_of overrideExtra) False]\<rparr>)"
    by (simp add: run vb e0)
  ultimately show ?thesis
    using p d by blast
qed

section \<open>Tasks after the clone\<close>

lemma doPostCreate_parse_error:
  assumes "ParseTaskfile C rootPath w = ((tf, Some e), w1)"
  shows "doPostCreate C cmd rootPath verbose w =
     (Some e, w1\<lparr>evlog := evlog w @ [EvParseTaskfile rootPath]\<rparr>)"
  using assms by (simp add: doPostCreate_def invoke_eq)

lemma doPostCreate_no_unit:
  assumes "ParseTaskfile C rootPath w = ((tf, None), w1)"
    and "NewTask C tf rootPath TaskPostCreate verbose
           (w1\<lparr>evlog := evlog w @ [EvParseTaskfile rootPath]\<rparr>) = ((unit, err), w2)"
    and "unit = None \<or> err \<noteq> None"
  shows "doPostCreate C cmd rootPath verbose w =
     (None, w2\<lparr>evlog := evlog w @
        [EvParseTaskfile rootPath, EvNewTask rootPath TaskPostCreate verbose]\<rparr>)"
  using assms by (auto simp: doPostCreate_def invoke_eq split: option.splits)

text \<open>
  C6. In every invocation of \<^verbatim>\<open>doPostCreate\<close>: when \<^verbatim>\<open>bootstrap.ParseTaskfile\<close>
  returns an error (the task file is not found or does not parse), \<^verbatim>\<open>doPostCreate\<close>
  returns that error; when the task file parses and has no \<^verbatim>\<open>post-create\<close> task,
  \<^verbatim>\<open>doPostCreate\<close> returns nil and runs nothing: the parse and the lookup of the task
  are the only events, and the world is as the parse left it.
\<close>

theorem doPostCreate_missing_task:
  assumes parse: "ParseTaskfile C rootPath w = ((tf, perr), w1)"
  shows
    "(\<forall>e. perr = Some e \<longrightarrow>
        doPostCreate (C\<lparr>NewTask := NewTask_spec\<rparr>) cmd rootPath verbose w =
          (Some e, w1\<lparr>evlog := evlog w @ [EvParseTaskfile rootPath]\<rparr>)) \<and>
     (perr = None \<and> tf TaskPostCreate = None \<longrightarrow>
        doPostCreate (C\<lparr>NewTask := NewTask_spec\<rparr>) cmd rootPath verbose w =
          (None, w1\<lparr>evlog := evlog w @
             [EvParseTaskfile rootPath, EvNewTask rootPath TaskPostCreate verbose]\<rparr>))"
proof -
  let ?C = "C\<lparr>NewTask := NewTask_spec\<rparr>"
  have a: "\<forall>e. perr = Some e \<longrightarrow>
      doPostCreate ?C cmd rootPath verbose w =
        (Some e, w1\<lparr>evlog := evlog w @ [EvParseTaskfile rootPath]\<rparr>)"
  proof (intro allI impI)
    fix e
    assume "perr = Some e"
    with parse have "ParseTaskfile ?C rootPath w = ((tf, Some e), w1)"
      by simp
    then show "doPostCreate ?C cmd rootPath verbose w =
        (Some e, w1\<lparr>evlog := evlog w @ [EvParseTaskfile rootPath]\<rparr>)"
      by (rule doPostCreate_parse_error)
  qed
  have b: "perr = None \<and> tf TaskPostCreate = None \<longrightarrow>
      doPostCreate ?C cmd rootPath verbose w =
        (None, w1\<lparr>evlog := evlog w @
           [EvParseTaskfile rootPath, EvNewTask rootPath TaskPostCreate verbose]\<rparr>)"
  proof
    assume h: "perr = None \<and> tf TaskPostCreate = None"
    let ?w1 = "w1\<lparr>evlog := evlog w @ [EvParseTaskfile rootPath]\<rparr>"
    from parse h have p: "ParseTaskfile ?C rootPath w = ((tf, None), w1)"
      by simp
    from h have n: "NewTask ?C tf rootPath TaskPostCreate verbose ?w1 =
        ((None, Some (Err (''task not found: '' @ TaskPostCreate))), ?w1)"
      by (simp add: NewTask_spec_def)
    have "doPostCreate ?C cmd rootPath verbose w =
        (None, ?w1\<lparr>evlog := evlog w @
           [EvParseTaskfile rootPath, EvNewTask rootPath TaskPostCreate verbose]\<rparr>)"
      using p n by (rule doPostCreate_no_unit) simp
    then show "doPostCreate ?C cmd rootPath verbose w =
        (None, w1\<lparr>evlog := evlog w @
           [EvParseTaskfile rootPath, EvNewTask rootPath TaskPostCreate verbose]\<rparr>)"
      by simp
  qed
  from a b show ?thesis ..
qed

theorem doPostCreate_missing_task_witness:
  "demoTaskfile TaskPostCreate = None \<and>
   doPostCreate (demoEnv\<lparr>NewTask := NewTask_spec\<rparr>) plainCommand ''myapp'' False emptyWorld =
     (None, emptyWorld\<lparr>evlog :=
        [EvParseTaskfile ''myapp'', EvNewTask ''myapp'' TaskPostCreate False]\<rparr>) \<and>
   doPostCreate (noTaskfileEnv\<lparr>NewTask := NewTask_spec\<rparr>) plainCommand ''myapp'' False emptyWorld =
     (Some (Err ''no taskfile''), emptyWorld\<lparr>evlog := [EvParseTaskfile ''myapp'']\<rparr>)"
proof -
  have none: "demoTaskfile TaskPostCreate = None"
    by (simp add: demoTaskfile_def TaskPostCreate_def)
  have p1: "ParseTaskfile demoEnv ''myapp'' emptyWorld = ((demoTaskfile, None), emptyWorld)"
    by (simp add: demoEnv_def)
  have p2: "ParseTaskfile noTaskfileEnv ''myapp'' emptyWorld =
      ((Map.empty, Some (Err ''no taskfile'')), emptyWorld)"
    by (simp add: noTaskfileEnv_def demoEnv_def)
  have e0: "evlog emptyWorld = []"
    by (simp add: emptyWorld_def)
  from doPostCreate_missing_task [OF p1, of plainCommand False]
       doPostCreate_missing_task [OF p2, of plainCommand False] none
  show ?thesis
    by (simp add: e0)
qed

lemma doInstall_NewTask_error:
  assumes "ParseTaskfile C rootPath w = ((tf, None), w1)"
    and "NewTask C tf rootPath task verbose
           (w1\<lparr>evlog := evlog w @ [EvParseTaskfile rootPath]\<rparr>) = ((unit, Some e), w2)"
  shows "doInstall C task rootPath verbose w =
     (Returned (Some e), w2\<lparr>evlog := evlog w @
        [EvParseTaskfile rootPath, EvNewTask rootPath task verbose]\<rparr>)"
  using assms by (simp add: doInstall_def invoke_eq split: option.splits)

lemma doInstall_nil_unit:
  assumes "ParseTaskfile C rootPath w = ((tf, None), w1)"
    and "NewTask C tf rootPath task verbose
           (w1\<lparr>evlog := evlog w @ [EvParseTaskfile rootPath]\<rparr>) = ((None, None), w2)"
  shows "doInstall C task rootPath verbose w =
     (Panicked ''call of nil func'', w2\<lparr>evlog := evlog w @
        [EvParseTaskfile rootPath, EvNewTask rootPath task verbose]\<rparr>)"
  using assms by (simp add: doInstall_def invoke_eq split: option.splits)

text \<open>
  C10. In every invocation of \<^verbatim>\<open>doPostCreate\<close> in which the task file parses: when
  \<^verbatim>\<open>NewTask\<close> returns an error or a nil unit, whatever the cause,
  \<^verbatim>\<open>doPostCreate\<close> returns nil and runs nothing; \<^verbatim>\<open>doInstall\<close>, for the same task
  name and the same answer of \<^verbatim>\<open>NewTask\<close>, returns the error when there is one.
\<close>

theorem doPostCreate_hides_NewTask_failure:
  assumes parse: "ParseTaskfile C rootPath w = ((tf, None), w1)"
    and newTask: "NewTask C tf rootPath TaskPostCreate verbose
           (w1\<lparr>evlog := evlog w @ [EvParseTaskfile rootPath]\<rparr>) = ((unit, err), w2)"
  shows
    "(unit = None \<or> err \<noteq> None \<longrightarrow>
        doPostCreate C cmd rootPath verbose w =
          (None, w2\<lparr>evlog := evlog w @
             [EvParseTaskfile rootPath, EvNewTask rootPath TaskPostCreate verbose]\<rparr>)) \<and>
     (\<forall>e. err = Some e \<longrightarrow>
        doInstall C TaskPostCreate rootPath verbose w =
          (Returned (Some e), w2\<lparr>evlog := evlog w @
             [EvParseTaskfile rootPath, EvNewTask rootPath TaskPostCreate verbose]\<rparr>))"
proof -
  have a: "unit = None \<or> err \<noteq> None \<longrightarrow>
      doPostCreate C cmd rootPath verbose w =
        (None, w2\<lparr>evlog := evlog w @
           [EvParseTaskfile rootPath, EvNewTask rootPath TaskPostCreate verbose]\<rparr>)"
    using doPostCreate_no_unit [OF parse newTask] by blast
  have b: "\<forall>e. err = Some e \<longrightarrow>
      doInstall C TaskPostCreate rootPath verbose w =
        (Returned (Some e), w2\<lparr>evlog := evlog w @
           [EvParseTaskfile rootPath, EvNewTask rootPath TaskPostCreate verbose]\<rparr>)"
    using doInstall_NewTask_error [OF parse] newTask by blast
  from a b show ?thesis ..
qed

theorem doPostCreate_hides_NewTask_failure_witness:
  "doPostCreate brokenTaskEnv plainCommand ''myapp'' False emptyWorld =
     (None, emptyWorld\<lparr>evlog :=
        [EvParseTaskfile ''myapp'', EvNewTask ''myapp'' TaskPostCreate False]\<rparr>) \<and>
   doInstall brokenTaskEnv TaskPostCreate ''myapp'' False emptyWorld =
     (Returned (Some (Err ''bad taskfile'')), emptyWorld\<lparr>evlog :=
        [EvParseTaskfile ''myapp'', EvNewTask ''myapp'' TaskPostCreate False]\<rparr>)"
proof -
  have p: "ParseTaskfile brokenTaskEnv ''myapp'' emptyWorld = ((demoTaskfile, None), emptyWorld)"
    by (simp add: brokenTaskEnv_def demoEnv_def)
  have n: "NewTask brokenTaskEnv demoTaskfile ''myapp'' TaskPostCreate False
      (emptyWorld\<lparr>evlog := evlog emptyWorld @ [EvParseTaskfile ''myapp'']\<rparr>) =
      ((None, Some (Err ''bad taskfile'')),
       emptyWorld\<lparr>evlog := evlog emptyWorld @ [EvParseTaskfile ''myapp'']\<rparr>)"
    by (simp add: brokenTaskEnv_def)
  have e0: "evlog emptyWorld = []"
    by (simp add: emptyWorld_def)
  from doPostCreate_hides_NewTask_failure [OF p n, of plainCommand]
  show ?thesis
    by (simp add: e0)
qed

section \<open>No rollback after the clone\<close>

lemma fileOp_Println: "filter fileOp (evlog (Println s w)) = filter fileOp (evlog w)"
  by (simp add: Println_def)

lemma fileOp_instantiateEnv:
  "filter fileOp (evlog (snd (instantiateEnv C cmd g rootPath addlEnv w))) =
   filter fileOp (evlog w)"
  by (simp add: instantiateEnv_def Let_def invoke_eq split: option.splits)

lemma fileOp_doPostCreate:
  "filter fileOp (evlog (snd (doPostCreate C cmd rootPath verbose w))) = filter fileOp (evlog w)"
  by (simp add: doPostCreate_def invoke_eq spinnerRun_def split: option.splits prod.splits)

lemma fileOp_doInstall:
  "filter fileOp (evlog (snd (doInstall C task rootPath verbose w))) = filter fileOp (evlog w)"
  by (simp add: doInstall_def invoke_eq spinnerRun_def split: option.splits prod.splits)

lemma createApp_after_clone:
  assumes "cloneTemplate C cmd (templateURL g) (appName g) (Println ''Cloning template...'' w) =
      (None, w1)"
    and "instantiateEnv C cmd g (appName g) (Some [(''LIVEKIT_SANDBOX_ID'', sandboxID g)])
      (Println ''Instantiating environment...'' w1) = (r2, w2)"
  shows "createApp C cmd g w =
     (if r2 = Returned None then
        if c_install cmd then
          doInstall C TaskInstall (appName g) (c_verbose cmd) (Println ''Installing template...'' w2)
        else (Returned (fst (doPostCreate C cmd (appName g) (c_verbose cmd) w2)),
              snd (doPostCreate C cmd (appName g) (c_verbose cmd) w2))
      else (r2, w2))"
  using assms
  by (simp add: createApp_def split: outcome.splits option.splits prod.splits)

text \<open>
  C8. In every invocation in which the clone step succeeded, the application
  directory exists after the clone, and the invocation ends with the result and
  the world of the last later state it ran: of \<^verbatim>\<open>instantiateEnv\<close> when that fails,
  else of \<^verbatim>\<open>doInstall\<close> (with \<^verbatim>\<open>--install\<close>) or of \<^verbatim>\<open>doPostCreate\<close>. So the error of
  a failing state is the error returned, the world is as that state left it, and
  after the clone the command itself removes and renames nothing.
\<close>

theorem createApp_no_rollback:
  assumes clone:
      "cloneTemplate C cmd (templateURL g) (appName g) (Println ''Cloning template...'' w) =
         (None, w1)"
    and env:
      "instantiateEnv C cmd g (appName g) (Some [(''LIVEKIT_SANDBOX_ID'', sandboxID g)])
         (Println ''Instantiating environment...'' w1) = (r2, w2)"
    and inst:
      "doInstall C TaskInstall (appName g) (c_verbose cmd)
         (Println ''Installing template...'' w2) = (r3, w3)"
    and post: "doPostCreate C cmd (appName g) (c_verbose cmd) w2 = (r4, w4)"
  shows
    "exists_path (fs w1) (appName g) \<and>
     (r2 \<noteq> Returned None \<longrightarrow> createApp C cmd g w = (r2, w2)) \<and>
     (r2 = Returned None \<and> c_install cmd \<longrightarrow> createApp C cmd g w = (r3, w3)) \<and>
     (r2 = Returned None \<and> \<not> c_install cmd \<longrightarrow> createApp C cmd g w = (Returned r4, w4)) \<and>
     filter fileOp (evlog (snd (createApp C cmd g w))) = filter fileOp (evlog w1)"
proof -
  note ca = createApp_after_clone [OF clone env]
  have ex: "exists_path (fs w1) (appName g)"
    using cloneTemplate_success_exists [OF clone] by simp
  have a: "r2 \<noteq> Returned None \<longrightarrow> createApp C cmd g w = (r2, w2)"
    by (simp add: ca)
  have b: "r2 = Returned None \<and> c_install cmd \<longrightarrow> createApp C cmd g w = (r3, w3)"
    by (simp add: ca inst)
  have c: "r2 = Returned None \<and> \<not> c_install cmd \<longrightarrow> createApp C cmd g w = (Returned r4, w4)"
    by (simp add: ca post)
  have f2: "filter fileOp (evlog w2) = filter fileOp (evlog w1)"
    using fileOp_instantiateEnv [of C cmd g "appName g"
        "Some [(''LIVEKIT_SANDBOX_ID'', sandboxID g)]" "Println ''Instantiating environment...'' w1"]
    by (simp add: env fileOp_Println)
  have f3: "filter fileOp (evlog w3) = filter fileOp (evlog w1)"
    using fileOp_doInstall [of C TaskInstall "appName g" "c_verbose cmd"
        "Println ''Installing template...'' w2"]
    by (simp add: inst fileOp_Println f2)
  have f4: "filter fileOp (evlog w4) = filter fileOp (evlog w1)"
    using fileOp_doPostCreate [of C cmd "appName g" "c_verbose cmd" w2]
    by (simp add: post f2)
  have d: "filter fileOp (evlog (snd (createApp C cmd g w))) = filter fileOp (evlog w1)"
    by (simp add: ca inst post f2 f3 f4)
  from ex a b c d show ?thesis
    by blast
qed

lemma cloneTemplate_myapp:
  assumes "gitClone E = gitClone demoEnv" and "spinnerErr E = spinnerErr demoEnv"
    and "spinnerAbort E = spinnerAbort demoEnv" and "c_verbose cmd = False"
  shows "cloneTemplate E cmd ''u'' ''myapp'' (Println ''Cloning template...'' emptyWorld) =
     (None,
      \<lparr>fs = [(''myapp'', [''taskfile.yaml''])], cliProjects = [],
       evlog = [EvPrintln ''Cloning template...'', EvGitClone ''u'' ''myapp.tmp'',
                EvRemoveAll (Entry ''myapp.tmp'' ''.git''),
                EvRename ''myapp.tmp'' ''myapp'', EvRemoveAll (Dir ''myapp.tmp'')],
       ext = ()\<rparr>)"
  using assms
  by (simp add: cloneTemplate_unfold cloneAction_unfold stagingPath_myapp Let_def
      demoEnv_def emptyWorld_def cleanup_def Println_def relocate_def exists_path_def)

theorem createApp_no_rollback_witness:
  "createApp failingPostCreateEnv plainCommand myappGlobals emptyWorld =
     (Returned (Some (Err ''exit status 1'')),
      \<lparr>fs = [(''myapp'', [''taskfile.yaml''])], cliProjects = [],
       evlog = [EvPrintln ''Cloning template...'', EvGitClone ''u'' ''myapp.tmp'',
                EvRemoveAll (Entry ''myapp.tmp'' ''.git''),
                EvRename ''myapp.tmp'' ''myapp'', EvRemoveAll (Dir ''myapp.tmp''),
                EvPrintln ''Instantiating environment...'',
                EvInstantiateDotEnv ''myapp''
                  (mergeEnv (baseEnv demoProject) (Some [(''LIVEKIT_SANDBOX_ID'', [])])) False,
                EvParseTaskfile ''myapp'', EvNewTask ''myapp'' TaskPostCreate False,
                EvRunTask TaskPostCreate],
       ext = ()\<rparr>) \<and>
   filter fileOp (evlog (snd (createApp failingPostCreateEnv plainCommand myappGlobals emptyWorld))) =
     [EvRemoveAll (Entry ''myapp.tmp'' ''.git''), EvRename ''myapp.tmp'' ''myapp'',
      EvRemoveAll (Dir ''myapp.tmp'')] \<and>
   createApp failingInstallEnv installCommand myappGlobals emptyWorld =
     (Returned (Some (Err ''exit status 2'')),
      \<lparr>fs = [(''myapp'', [''taskfile.yaml''])], cliProjects = [],
       evlog = [EvPrintln ''Cloning template...'', EvGitClone ''u'' ''myapp.tmp'',
                EvRemoveAll (Entry ''myapp.tmp'' ''.git''),
                EvRename ''myapp.tmp'' ''myapp'', EvRemoveAll (Dir ''myapp.tmp''),
                EvPrintln ''Instantiating environment...'',
                EvInstantiateDotEnv ''myapp''
                  (mergeEnv (baseEnv demoProject) (Some [(''LIVEKIT_SANDBOX_ID'', [])])) False,
                EvPrintln ''Installing template...'',
                EvParseTaskfile ''myapp'', EvNewTask ''myapp'' TaskInstall False,
                EvRunTask TaskInstall],
       ext = ()\<rparr>) \<and>
   createApp failingDotEnvEnv plainCommand myappGlobals emptyWorld =
     (Returned (Some (Err ''cannot write .env'')),
      \<lparr>fs = [(''myapp'', [''taskfile.yaml''])], cliProjects = [],
       evlog = [EvPrintln ''Cloning template...'', EvGitClone ''u'' ''myapp.tmp'',
                EvRemoveAll (Entry ''myapp.tmp'' ''.git''),
                EvRename ''myapp.tmp'' ''myapp'', EvRemoveAll (Dir ''myapp.tmp''),
                EvPrintln ''Instantiating environment...'',
                EvInstantiateDotEnv ''myapp''
                  (mergeEnv (baseEnv demoProject) (Some [(''LIVEKIT_SANDBOX_ID'', [])])) False],
       ext = ()\<rparr>)"
proof -
  let ?env = "mergeEnv (baseEnv demoProject) (Some [(''LIVEKIT_SANDBOX_ID'', [])])"
  let ?w1 = "\<lparr>fs = [(''myapp'', [''taskfile.yaml''])], cliProjects = [],
       evlog = [EvPrintln ''Cloning template...'', EvGitClone ''u'' ''myapp.tmp'',
                EvRemoveAll (Entry ''myapp.tmp'' ''.git''),
                EvRename ''myapp.tmp'' ''myapp'', EvRemoveAll (Dir ''myapp.tmp'')],
       ext = ()\<rparr>"
  let ?w2 = "\<lparr>fs = [(''myapp'', [''taskfile.yaml''])], cliProjects = [],
       evlog = [EvPrintln ''Cloning template...'', EvGitClone ''u'' ''myapp.tmp'',
                EvRemoveAll (Entry ''myapp.tmp'' ''.git''),
                EvRename ''myapp.tmp'' ''myapp'', EvRemoveAll (Dir ''myapp.tmp''),
                EvPrintln ''Instantiating environment...'',
                EvInstantiateDotEnv ''myapp'' ?env False],
       ext = ()\<rparr>"
  let ?w3 = "\<lparr>fs = [(''myapp'', [''taskfile.yaml''])], cliProjects = [],
       evlog = [EvPrintln ''Cloning template...'', EvGitClone ''u'' ''myapp.tmp'',
                EvRemoveAll (Entry ''myapp.tmp'' ''.git''),
                EvRename ''myapp.tmp'' ''myapp'', EvRemoveAll (Dir ''myapp.tmp''),
                EvPrintln ''Instantiating environment...'',
                EvInstantiateDotEnv ''myapp'' ?env False,
                EvPrintln ''Installing template...'',
                EvParseTaskfile ''myapp'', EvNewTask ''myapp'' TaskInstall False,
                EvRunTask TaskInstall],
       ext = ()\<rparr>"
  let ?w4 = "\<lparr>fs = [(''myapp'', [''taskfile.yaml''])], cliProjects = [],
       evlog = [EvPrintln ''Cloning template...'', EvGitClone ''u'' ''myapp.tmp'',
                EvRemoveAll (Entry ''myapp.tmp'' ''.git''),
                EvRename ''myapp.tmp'' ''myapp'', EvRemoveAll (Dir ''myapp.tmp''),
                EvPrintln ''Instantiating environment...'',
                EvInstantiateDotEnv ''myapp'' ?env False,
                EvParseTaskfile ''myapp'', EvNewTask ''myapp'' TaskPostCreate False,
                EvRunTask TaskPostCreate],
       ext = ()\<rparr>"
  have g: "templateURL myappGlobals = ''u''" "appName myappGlobals = ''myapp''"
    "sandboxID myappGlobals = []" "project myappGlobals = Some demoProject"
    by (simp_all add: myappGlobals_def demoGlobals_def)
  have cmd: "c_verbose plainCommand = False" "c_install plainCommand = False"
    "c_verbose installCommand = False" "c_install installCommand = True"
    by (simp_all add: plainCommand_def installCommand_def)
  have pair: "f = (fst f, snd f)" for f :: "outcome \<times> unit world"
    by simp
  have pair': "f = (fst f, snd f)" for f :: "error option \<times> unit world"
    by simp

  have clone1: "cloneTemplate failingPostCreateEnv plainCommand (templateURL myappGlobals)
      (appName myappGlobals) (Println ''Cloning template...'' emptyWorld) = (None, ?w1)"
    by (simp add: g cmd cloneTemplate_myapp failingPostCreateEnv_def)
  have env1: "instantiateEnv failingPostCreateEnv plainCommand myappGlobals (appName myappGlobals)
      (Some [(''LIVEKIT_SANDBOX_ID'', sandboxID myappGlobals)])
      (Println ''Instantiating environment...'' ?w1) = (Returned None, ?w2)"
    by (simp add: g cmd instantiateEnv_def invoke_eq Println_def Let_def
        failingPostCreateEnv_def demoEnv_def)
  have post1: "doPostCreate failingPostCreateEnv plainCommand (appName myappGlobals)
      (c_verbose plainCommand) ?w2 = (Some (Err ''exit status 1''), ?w4)"
    by (simp add: g cmd doPostCreate_def invoke_eq spinnerRun_def NewTask_spec_def
        TaskPostCreate_def failingPostCreateEnv_def demoEnv_def)
  note r1 = createApp_no_rollback [OF clone1 env1 pair post1]

  have clone2: "cloneTemplate failingInstallEnv installCommand (templateURL myappGlobals)
      (appName myappGlobals) (Println ''Cloning template...'' emptyWorld) = (None, ?w1)"
    by (simp add: g cmd cloneTemplate_myapp failingInstallEnv_def)
  have env2: "instantiateEnv failingInstallEnv installCommand myappGlobals (appName myappGlobals)
      (Some [(''LIVEKIT_SANDBOX_ID'', sandboxID myappGlobals)])
      (Println ''Instantiating environment...'' ?w1) = (Returned None, ?w2)"
    by (simp add: g cmd instantiateEnv_def invoke_eq Println_def Let_def
        failingInstallEnv_def demoEnv_def)
  have inst2: "doInstall failingInstallEnv TaskInstall (appName myappGlobals)
      (c_verbose installCommand) (Println ''Installing template...'' ?w2) =
      (Returned (Some (Err ''exit status 2'')), ?w3)"
    by (simp add: g cmd doInstall_def invoke_eq spinnerRun_def NewTask_spec_def Println_def
        TaskInstall_def failingInstallEnv_def demoEnv_def)
  note r2 = createApp_no_rollback [OF clone2 env2 inst2 pair']

  have clone3: "cloneTemplate failingDotEnvEnv plainCommand (templateURL myappGlobals)
      (appName myappGlobals) (Println ''Cloning template...'' emptyWorld) = (None, ?w1)"
    by (simp add: g cmd cloneTemplate_myapp failingDotEnvEnv_def)
  have env3: "instantiateEnv failingDotEnvEnv plainCommand myappGlobals (appName myappGlobals)
      (Some [(''LIVEKIT_SANDBOX_ID'', sandboxID myappGlobals)])
      (Println ''Instantiating environment...'' ?w1) =
      (Returned (Some (Err ''cannot write .env'')), ?w2)"
    by (simp add: g cmd instantiateEnv_def invoke_eq Println_def Let_def
        failingDotEnvEnv_def demoEnv_def)
  note r3 = createApp_no_rollback [OF clone3 env3 pair pair']

  from r1 r2 r3 show ?thesis
    by (simp add: cmd)
qed

section \<open>Project resolution\<close>

lemma requireProject_body_detour:
  assumes "loadProjectDetails P cmd w = ((pc, Some e0), u1)"
    and "loadProjectConfig P cmd (u1\<lparr>evlog := evlog w @ [EvLoadProjectDetails]\<rparr>) = (None, u2)"
    and "cliProjects u2 = []"
    and "confirmAuth P (u2\<lparr>evlog := evlog w @ [EvLoadProjectDetails, EvLoadProjectConfig]\<rparr>) =
           ((shouldAuth, None), u3)"
    and "initAuth P cmd
           (u3\<lparr>evlog := evlog w @ [EvLoadProjectDetails, EvLoadProjectConfig, EvConfirmAuth]\<rparr>) =
           (ie, u4)"
    and "tryAuthIfNeeded P cmd
           (u4\<lparr>evlog := evlog w @
              [EvLoadProjectDetails, EvLoadProjectConfig, EvConfirmAuth, EvInitAuth]\<rparr>) =
           (authErr, u5)"
  shows "requireProject_body P cmd g w =
     (if shouldAuth then
        (case authErr of
           Some e \<Rightarrow> Done ((Some e, g\<lparr>project := pc\<rparr>), u5\<lparr>evlog := evlog w @ detourEvents\<rparr>)
         | None \<Rightarrow> Retry (g\<lparr>project := pc\<rparr>, u5\<lparr>evlog := evlog w @ detourEvents\<rparr>))
      else Done ((Some (Err ''no project selected''), g\<lparr>project := pc\<rparr>),
                 u3\<lparr>evlog := evlog w @
                    [EvLoadProjectDetails, EvLoadProjectConfig, EvConfirmAuth]\<rparr>))"
  using assms
  by (simp add: requireProject_body_def invoke_eq Let_def detourEvents_def split: option.splits)

lemma requireProject_one_retry:
  assumes "requireProject_body P cmd g w = Retry (g1, w1)"
    and "requireProject_body P cmd g1 w1 = Done r"
  shows "requireProject (Suc 0) P cmd g w = None \<and>
     requireProject (Suc (Suc n)) P cmd g w = Some r"
  using assms by simp

text \<open>
  C7 (amended). In every invocation of \<^verbatim>\<open>requireProject\<close> in which no project is
  available (\<^verbatim>\<open>loadProjectDetails\<close> fails) and none is configured locally (the
  configuration loads and has no project), the user is asked whether to
  authenticate. When the user declines, the error is "no project selected"; when
  the authentication fails, its error is returned. When the user accepts and the
  authentication succeeds, \<^verbatim>\<open>requireProject\<close> is invoked again, and what that
  invocation does is what the call does; when it returns without a further detour,
  the whole resolution is those two invocations (one retry) and returns what the
  second returned. Nothing in \<^verbatim>\<open>requireProject\<close> bounds the number of detours.
\<close>

theorem requireProject_detour_then_retry:
  assumes l: "loadProjectDetails P cmd w = ((pc, Some e0), u1)"
    and c: "loadProjectConfig P cmd (u1\<lparr>evlog := evlog w @ [EvLoadProjectDetails]\<rparr>) = (None, u2)"
    and np: "cliProjects u2 = []"
    and cf: "confirmAuth P (u2\<lparr>evlog := evlog w @ [EvLoadProjectDetails, EvLoadProjectConfig]\<rparr>) =
           ((shouldAuth, None), u3)"
    and ia: "initAuth P cmd
           (u3\<lparr>evlog := evlog w @ [EvLoadProjectDetails, EvLoadProjectConfig, EvConfirmAuth]\<rparr>) =
           (ie, u4)"
    and ta: "tryAuthIfNeeded P cmd
           (u4\<lparr>evlog := evlog w @
              [EvLoadProjectDetails, EvLoadProjectConfig, EvConfirmAuth, EvInitAuth]\<rparr>) =
           (authErr, u5)"
  shows
    "(\<not> shouldAuth \<longrightarrow>
        requireProject (Suc n) P cmd g w =
          Some ((Some (Err ''no project selected''), g\<lparr>project := pc\<rparr>),
                u3\<lparr>evlog := evlog w @
                   [EvLoadProjectDetails, EvLoadProjectConfig, EvConfirmAuth]\<rparr>)) \<and>
     (\<forall>e. shouldAuth \<and> authErr = Some e \<longrightarrow>
        requireProject (Suc n) P cmd g w =
          Some ((Some e, g\<lparr>project := pc\<rparr>), u5\<lparr>evlog := evlog w @ detourEvents\<rparr>)) \<and>
     (shouldAuth \<and> authErr = None \<longrightarrow>
        requireProject (Suc n) P cmd g w =
          requireProject n P cmd (g\<lparr>project := pc\<rparr>)
            (u5\<lparr>evlog := evlog w @ detourEvents\<rparr>)) \<and>
     (\<forall>r. shouldAuth \<and> authErr = None \<and>
          requireProject_body P cmd (g\<lparr>project := pc\<rparr>)
            (u5\<lparr>evlog := evlog w @ detourEvents\<rparr>) = Done r \<longrightarrow>
        requireProject (Suc 0) P cmd g w = None \<and>
        requireProject (Suc (Suc n)) P cmd g w = Some r)"
proof -
  note b = requireProject_body_detour [OF l c np cf ia ta, of g]
  have a: "\<not> shouldAuth \<longrightarrow>
      requireProject (Suc n) P cmd g w =
        Some ((Some (Err ''no project selected''), g\<lparr>project := pc\<rparr>),
              u3\<lparr>evlog := evlog w @
                 [EvLoadProjectDetails, EvLoadProjectConfig, EvConfirmAuth]\<rparr>)"
    by (simp add: b)
  have f: "\<forall>e. shouldAuth \<and> authErr = Some e \<longrightarrow>
      requireProject (Suc n) P cmd g w =
        Some ((Some e, g\<lparr>project := pc\<rparr>), u5\<lparr>evlog := evlog w @ detourEvents\<rparr>)"
    by (simp add: b)
  have r: "\<forall>r. shouldAuth \<and> authErr = None \<and>
        requireProject_body P cmd (g\<lparr>project := pc\<rparr>)
          (u5\<lparr>evlog := evlog w @ detourEvents\<rparr>) = Done r \<longrightarrow>
      requireProject (Suc 0) P cmd g w = None \<and>
      requireProject (Suc (Suc n)) P cmd g w = Some r"
  proof (intro allI impI)
    fix r
    assume h: "shouldAuth \<and> authErr = None \<and>
        requireProject_body P cmd (g\<lparr>project := pc\<rparr>)
          (u5\<lparr>evlog := evlog w @ detourEvents\<rparr>) = Done r"
    with b have "requireProject_body P cmd g w =
        Retry (g\<lparr>project := pc\<rparr>, u5\<lparr>evlog := evlog w @ detourEvents\<rparr>)"
      by simp
    moreover from h have "requireProject_body P cmd (g\<lparr>project := pc\<rparr>)
          (u5\<lparr>evlog := evlog w @ detourEvents\<rparr>) = Done r"
      by simp
    ultimately show "requireProject (Suc 0) P cmd g w = None \<and>
        requireProject (Suc (Suc n)) P cmd g w = Some r"
      by (rule requireProject_one_retry)
  qed
  have again: "shouldAuth \<and> authErr = None \<longrightarrow>
      requireProject (Suc n) P cmd g w =
        requireProject n P cmd (g\<lparr>project := pc\<rparr>)
          (u5\<lparr>evlog := evlog w @ detourEvents\<rparr>)"
    by (simp add: b)
  from a f again r show ?thesis
    by blast
qed

lemma stubbornAuth_body_Suc:
  "ext w = Suc k \<Longrightarrow> cliProjects w = [] \<Longrightarrow>
   requireProject_body stubbornAuth cmd g w =
     Retry (g\<lparr>project := None\<rparr>, w\<lparr>ext := k, evlog := evlog w @ detourEvents\<rparr>)"
  by (simp add: requireProject_body_def invoke_eq Let_def stubbornAuth_def detourEvents_def)

lemma stubbornAuth_body_0:
  "ext w = 0 \<Longrightarrow>
   requireProject_body stubbornAuth cmd g w =
     Done ((None, g\<lparr>project := Some demoProject\<rparr>),
           w\<lparr>evlog := evlog w @ [EvLoadProjectDetails]\<rparr>)"
  by (simp add: requireProject_body_def invoke_eq Let_def stubbornAuth_def)

theorem requireProject_detour_then_retry_witness:
  "requireProject (Suc 0) decliningAuth plainCommand noProjectGlobals (detourWorld (Suc 0)) =
     Some ((Some (Err ''no project selected''), noProjectGlobals),
           \<lparr>fs = [], cliProjects = [],
            evlog = [EvLoadProjectDetails, EvLoadProjectConfig, EvConfirmAuth], ext = Suc 0\<rparr>) \<and>
   requireProject (Suc 0) stubbornAuth plainCommand noProjectGlobals (detourWorld (Suc 0)) = None \<and>
   requireProject (Suc (Suc 0)) stubbornAuth plainCommand noProjectGlobals (detourWorld (Suc 0)) =
     Some ((None, noProjectGlobals\<lparr>project := Some demoProject\<rparr>),
           \<lparr>fs = [], cliProjects = [], evlog = detourEvents @ [EvLoadProjectDetails], ext = 0\<rparr>)"
proof -
  let ?w = "detourWorld (Suc 0)"
  let ?P = stubbornAuth
  have e: "evlog ?w = []" "cliProjects ?w = []"
    by (simp_all add: detourWorld_def)
  have l: "loadProjectDetails ?P plainCommand ?w = ((None, Some (Err ''no project'')), ?w)"
    by (simp add: stubbornAuth_def detourWorld_def)
  have c: "loadProjectConfig ?P plainCommand (?w\<lparr>evlog := evlog ?w @ [EvLoadProjectDetails]\<rparr>) =
      (None, ?w\<lparr>evlog := evlog ?w @ [EvLoadProjectDetails]\<rparr>)"
    by (simp add: stubbornAuth_def)
  have np: "cliProjects (?w\<lparr>evlog := evlog ?w @ [EvLoadProjectDetails]\<rparr>) = []"
    by (simp add: e)
  have cf: "confirmAuth ?P
      (?w\<lparr>evlog := evlog ?w @ [EvLoadProjectDetails],
           evlog := evlog ?w @ [EvLoadProjectDetails, EvLoadProjectConfig]\<rparr>) =
      ((True, None), ?w\<lparr>evlog := evlog ?w @ [EvLoadProjectDetails, EvLoadProjectConfig]\<rparr>)"
    by (simp add: stubbornAuth_def)
  have ia: "initAuth ?P plainCommand
      (?w\<lparr>evlog := evlog ?w @ [EvLoadProjectDetails, EvLoadProjectConfig],
           evlog := evlog ?w @ [EvLoadProjectDetails, EvLoadProjectConfig, EvConfirmAuth]\<rparr>) =
      (None, ?w\<lparr>evlog := evlog ?w @ [EvLoadProjectDetails, EvLoadProjectConfig, EvConfirmAuth]\<rparr>)"
    by (simp add: stubbornAuth_def)
  have ta: "tryAuthIfNeeded ?P plainCommand
      (?w\<lparr>evlog := evlog ?w @ [EvLoadProjectDetails, EvLoadProjectConfig, EvConfirmAuth],
           evlog := evlog ?w @
             [EvLoadProjectDetails, EvLoadProjectConfig, EvConfirmAuth, EvInitAuth]\<rparr>) =
      (None, ?w\<lparr>evlog := evlog ?w @
             [EvLoadProjectDetails, EvLoadProjectConfig, EvConfirmAuth, EvInitAuth],
           ext := 0\<rparr>)"
    by (simp add: stubbornAuth_def detourWorld_def)
  have second: "requireProject_body ?P plainCommand (noProjectGlobals\<lparr>project := None\<rparr>)
      (?w\<lparr>evlog := evlog ?w @
             [EvLoadProjectDetails, EvLoadProjectConfig, EvConfirmAuth, EvInitAuth],
           ext := 0, evlog := evlog ?w @ detourEvents\<rparr>) =
      Done ((None, noProjectGlobals\<lparr>project := Some demoProject\<rparr>),
            \<lparr>fs = [], cliProjects = [], evlog = detourEvents @ [EvLoadProjectDetails], ext = 0\<rparr>)"
    by (simp add: stubbornAuth_body_0 detourWorld_def)
  let ?Q = decliningAuth
  have l': "loadProjectDetails ?Q plainCommand ?w = ((None, Some (Err ''no project'')), ?w)"
    by (simp add: decliningAuth_def stubbornAuth_def detourWorld_def)
  have c': "loadProjectConfig ?Q plainCommand (?w\<lparr>evlog := evlog ?w @ [EvLoadProjectDetails]\<rparr>) =
      (None, ?w\<lparr>evlog := evlog ?w @ [EvLoadProjectDetails]\<rparr>)"
    by (simp add: decliningAuth_def stubbornAuth_def)
  have cf': "confirmAuth ?Q
      (?w\<lparr>evlog := evlog ?w @ [EvLoadProjectDetails],
           evlog := evlog ?w @ [EvLoadProjectDetails, EvLoadProjectConfig]\<rparr>) =
      ((False, None), ?w\<lparr>evlog := evlog ?w @ [EvLoadProjectDetails, EvLoadProjectConfig]\<rparr>)"
    by (simp add: decliningAuth_def)
  have ia': "initAuth ?Q plainCommand
      (?w\<lparr>evlog := evlog ?w @ [EvLoadProjectDetails, EvLoadProjectConfig],
           evlog := evlog ?w @ [EvLoadProjectDetails, EvLoadProjectConfig, EvConfirmAuth]\<rparr>) =
      (None, ?w\<lparr>evlog := evlog ?w @ [EvLoadProjectDetails, EvLoadProjectConfig, EvConfirmAuth]\<rparr>)"
    by (simp add: decliningAuth_def stubbornAuth_def)
  have ta': "tryAuthIfNeeded ?Q plainCommand
      (?w\<lparr>evlog := evlog ?w @ [EvLoadProjectDetails, EvLoadProjectConfig, EvConfirmAuth],
           evlog := evlog ?w @
             [EvLoadProjectDetails, EvLoadProjectConfig, EvConfirmAuth, EvInitAuth]\<rparr>) =
      (None, ?w\<lparr>evlog := evlog ?w @
             [EvLoadProjectDetails, EvLoadProjectConfig, EvConfirmAuth, EvInitAuth],
           ext := 0\<rparr>)"
    by (simp add: decliningAuth_def stubbornAuth_def detourWorld_def)
  have g0: "noProjectGlobals\<lparr>project := None\<rparr> = noProjectGlobals"
    by (simp add: noProjectGlobals_def)
  from requireProject_detour_then_retry [OF l c np cf ia ta, of 0 noProjectGlobals] second
       requireProject_detour_then_retry [OF l' c' np cf' ia' ta', of 0 noProjectGlobals]
  show ?thesis
    by (simp add: g0 detourWorld_def)
qed

text \<open>
  The claim as stated fails: here no project is available and none is configured
  locally, and the resolution is not over after one retry; it takes two.
\<close>

theorem requireProject_two_retries:
  "requireProject (Suc (Suc 0)) stubbornAuth plainCommand noProjectGlobals (detourWorld (Suc (Suc 0))) = None \<and>
   requireProject (Suc (Suc (Suc 0))) stubbornAuth plainCommand noProjectGlobals (detourWorld (Suc (Suc 0))) =
     Some ((None, noProjectGlobals\<lparr>project := Some demoProject\<rparr>),
           \<lparr>fs = [], cliProjects = [],
            evlog = detourEvents @ detourEvents @ [EvLoadProjectDetails], ext = 0\<rparr>)"
  by (simp add: stubbornAuth_body_Suc stubbornAuth_body_0 detourWorld_def noProjectGlobals_def)

text \<open>And with collaborators that never make a project load, no bound is enough.\<close>

lemma foreverAuth_body:
  "cliProjects w = [] \<Longrightarrow>
   requireProject_body foreverAuth cmd g w =
     Retry (g\<lparr>project := None\<rparr>, w\<lparr>ext := ext w - 1, evlog := evlog w @ detourEvents\<rparr>)"
  by (simp add: requireProject_body_def invoke_eq Let_def foreverAuth_def stubbornAuth_def
      detourEvents_def)

lemma requireProject_unbounded:
  "cliProjects w = [] \<Longrightarrow> requireProject n foreverAuth cmd g w = None"
proof (induction n arbitrary: g w)
  case 0
  then show ?case by simp
next
  case (Suc n)
  have "cliProjects (w\<lparr>ext := ext w - 1, evlog := evlog w @ detourEvents\<rparr>) = []"
    using Suc.prems by simp
  then have "requireProject n foreverAuth cmd (g\<lparr>project := None\<rparr>)
      (w\<lparr>ext := ext w - 1, evlog := evlog w @ detourEvents\<rparr>) = None"
    by (rule Suc.IH)
  then show ?case
    using Suc.prems by (simp add: foreverAuth_body)
qed

section \<open>Missing arguments of the dispatch commands\<close>

lemma help_eq:
  "invoke EvShowSubcommandHelp (ShowSubcommandHelp D cmd) w =
     (fst (ShowSubcommandHelp D cmd w),
      (snd (ShowSubcommandHelp D cmd w))\<lparr>evlog := evlog w @ [EvShowSubcommandHelp]\<rparr>)"
  by (rule invoke_eq)

lemma dispatch_no_arguments:
  assumes "c_args cmd = []"
  shows "getAgentDispatch D cmd w = invoke EvShowSubcommandHelp (ShowSubcommandHelp D cmd) w"
    and "listAgentDispatches D cmd w = invoke EvShowSubcommandHelp (ShowSubcommandHelp D cmd) w"
    and "deleteAgentDispatch D cmd w = invoke EvShowSubcommandHelp (ShowSubcommandHelp D cmd) w"
  using assms
  by (simp_all add: getAgentDispatch_def listAgentDispatches_def deleteAgentDispatch_def)

lemma dispatch_empty_room:
  assumes "c_args cmd \<noteq> []" and "args_First cmd = []"
  shows "getAgentDispatch D cmd w = (Some (Err ''room name is required''), w)"
    and "listAgentDispatches D cmd w = (Some (Err ''room name is required''), w)"
    and "deleteAgentDispatch D cmd w = (Some (Err ''room name is required''), w)"
  using assms
  by (simp_all add: getAgentDispatch_def listAgentDispatches_def deleteAgentDispatch_def)

lemma dispatch_no_id:
  assumes "c_args cmd \<noteq> []" and "args_First cmd \<noteq> []" and "args_Get1 cmd = []"
  shows "getAgentDispatch D cmd w = (Some (Err ''dispatch ID is required''), w)"
    and "deleteAgentDispatch D cmd w = (Some (Err ''dispatch ID is required''), w)"
  using assms
  by (simp_all add: getAgentDispatch_def deleteAgentDispatch_def)

lemma create_no_room:
  assumes "\<not> c_new_room cmd" and "c_room cmd = []"
  shows "createAgentDispatch D cmd w =
     (Some (Err ''room or new-room is required''),
      (snd (ShowSubcommandHelp D cmd w))\<lparr>evlog := evlog w @ [EvShowSubcommandHelp]\<rparr>)"
  using assms by (simp add: createAgentDispatch_def invoke_eq)

lemma create_no_agent:
  assumes "\<not> c_new_room cmd" and "c_room cmd \<noteq> []" and "c_agent_name cmd = []"
  shows "createAgentDispatch D cmd w =
     (Some (Err ''agent-name is required''),
      (snd (ShowSubcommandHelp D cmd w))\<lparr>evlog := evlog w @ [EvShowSubcommandHelp]\<rparr>)"
  using assms by (simp add: createAgentDispatch_def invoke_eq)

lemma create_new_room_no_agent:
  assumes "c_new_room cmd" and "NewGuid D ''room-'' w = (room, w1)" and "c_agent_name cmd = []"
  shows "createAgentDispatch D cmd w =
     (Some (if room = [] then Err ''room or new-room is required''
            else Err ''agent-name is required''),
      (snd (ShowSubcommandHelp D cmd (w1\<lparr>evlog := evlog w @ [EvNewGuid ''room-'']\<rparr>)))
      \<lparr>evlog := evlog w @ [EvNewGuid ''room-'', EvShowSubcommandHelp]\<rparr>)"
  using assms by (simp add: createAgentDispatch_def invoke_eq)

text \<open>
  C9 (amended). No dispatch command issues its remote request when a required
  argument or flag is missing. \<^verbatim>\<open>get\<close>, \<^verbatim>\<open>list\<close> and \<^verbatim>\<open>delete\<close> with no positional
  argument print the subcommand help and return what the help printer returns;
  with an empty room name, and \<^verbatim>\<open>get\<close> and \<^verbatim>\<open>delete\<close> with no dispatch ID, they
  return an error and print no help. \<^verbatim>\<open>create\<close> with an empty room (and no
  \<^verbatim>\<open>--new-room\<close>) or an empty agent name prints the subcommand help and returns an
  error, also when \<^verbatim>\<open>--new-room\<close> generated the room name.
\<close>

theorem dispatch_missing_arguments:
  "(c_args cmd = [] \<longrightarrow>
      getAgentDispatch D cmd w =
        (fst (ShowSubcommandHelp D cmd w),
         (snd (ShowSubcommandHelp D cmd w))\<lparr>evlog := evlog w @ [EvShowSubcommandHelp]\<rparr>) \<and>
      listAgentDispatches D cmd w = getAgentDispatch D cmd w \<and>
      deleteAgentDispatch D cmd w = getAgentDispatch D cmd w) \<and>
   (c_args cmd \<noteq> [] \<and> args_First cmd = [] \<longrightarrow>
      getAgentDispatch D cmd w = (Some (Err ''room name is required''), w) \<and>
      listAgentDispatches D cmd w = (Some (Err ''room name is required''), w) \<and>
      deleteAgentDispatch D cmd w = (Some (Err ''room name is required''), w)) \<and>
   (c_args cmd \<noteq> [] \<and> args_First cmd \<noteq> [] \<and> args_Get1 cmd = [] \<longrightarrow>
      getAgentDispatch D cmd w = (Some (Err ''dispatch ID is required''), w) \<and>
      deleteAgentDispatch D cmd w = (Some (Err ''dispatch ID is required''), w)) \<and>
   (\<not> c_new_room cmd \<and> c_room cmd = [] \<longrightarrow>
      createAgentDispatch D cmd w =
        (Some (Err ''room or new-room is required''),
         (snd (ShowSubcommandHelp D cmd w))\<lparr>evlog := evlog w @ [EvShowSubcommandHelp]\<rparr>)) \<and>
   (\<not> c_new_room cmd \<and> c_room cmd \<noteq> [] \<and> c_agent_name cmd = [] \<longrightarrow>
      createAgentDispatch D cmd w =
        (Some (Err ''agent-name is required''),
         (snd (ShowSubcommandHelp D cmd w))\<lparr>evlog := evlog w @ [EvShowSubcommandHelp]\<rparr>)) \<and>
   (c_new_room cmd \<and> fst (NewGuid D ''room-'' w) \<noteq> [] \<and> c_agent_name cmd = [] \<longrightarrow>
      createAgentDispatch D cmd w =
        (Some (Err ''agent-name is required''),
         (snd (ShowSubcommandHelp D cmd
                 ((snd (NewGuid D ''room-'' w))\<lparr>evlog := evlog w @ [EvNewGuid ''room-'']\<rparr>)))
         \<lparr>evlog := evlog w @ [EvNewGuid ''room-'', EvShowSubcommandHelp]\<rparr>))"
  using dispatch_no_arguments [of cmd D w] dispatch_empty_room [of cmd D w]
    dispatch_no_id [of cmd D w] create_no_room [of cmd D w] create_no_agent [of cmd D w]
    create_new_room_no_agent [of cmd D w "fst (NewGuid D ''room-'' w)" "snd (NewGuid D ''room-'' w)"]
  by (simp add: help_eq)

theorem dispatch_missing_arguments_witness:
  "c_args noArgs = [] \<and>
   getAgentDispatch quietDispatch noArgs emptyWorld =
     (None, emptyWorld\<lparr>evlog := [EvShowSubcommandHelp]\<rparr>) \<and>
   listAgentDispatches quietDispatch noArgs emptyWorld =
     (None, emptyWorld\<lparr>evlog := [EvShowSubcommandHelp]\<rparr>) \<and>
   deleteAgentDispatch quietDispatch noArgs emptyWorld =
     (None, emptyWorld\<lparr>evlog := [EvShowSubcommandHelp]\<rparr>) \<and>
   getAgentDispatch quietDispatch roomOnly emptyWorld =
     (Some (Err ''dispatch ID is required''), emptyWorld) \<and>
   deleteAgentDispatch quietDispatch roomOnly emptyWorld =
     (Some (Err ''dispatch ID is required''), emptyWorld) \<and>
   createAgentDispatch quietDispatch noArgs emptyWorld =
     (Some (Err ''room or new-room is required''),
      emptyWorld\<lparr>evlog := [EvShowSubcommandHelp]\<rparr>) \<and>
   getAgentDispatch quietDispatch emptyRoom emptyWorld =
     (Some (Err ''room name is required''), emptyWorld) \<and>
   listAgentDispatches quietDispatch emptyRoom emptyWorld =
     (Some (Err ''room name is required''), emptyWorld) \<and>
   createAgentDispatch quietDispatch roomFlagOnly emptyWorld =
     (Some (Err ''agent-name is required''),
      emptyWorld\<lparr>evlog := [EvShowSubcommandHelp]\<rparr>) \<and>
   createAgentDispatch quietDispatch newRoomOnly emptyWorld =
     (Some (Err ''agent-name is required''),
      emptyWorld\<lparr>evlog := [EvNewGuid ''room-'', EvShowSubcommandHelp]\<rparr>)"
proof -
  have a: "c_args noArgs = []" "\<not> c_new_room noArgs" "c_room noArgs = []"
    by (simp_all add: noArgs_def plainCommand_def)
  have r: "c_args roomOnly \<noteq> []" "args_First roomOnly \<noteq> []" "args_Get1 roomOnly = []"
    by (simp_all add: roomOnly_def plainCommand_def args_First_def args_Get1_def)
  have er: "c_args emptyRoom \<noteq> []" "args_First emptyRoom = []"
    by (simp_all add: emptyRoom_def plainCommand_def args_First_def)
  have rf: "\<not> c_new_room roomFlagOnly" "c_room roomFlagOnly \<noteq> []" "c_agent_name roomFlagOnly = []"
    by (simp_all add: roomFlagOnly_def noArgs_def plainCommand_def)
  have nr: "c_new_room newRoomOnly" "c_agent_name newRoomOnly = []"
    by (simp_all add: newRoomOnly_def noArgs_def plainCommand_def)
  have h: "ShowSubcommandHelp quietDispatch cmd v = (None, v)" for cmd v
    by (simp add: quietDispatch_def)
  have gd: "NewGuid quietDispatch ''room-'' v = (''room-1'', v)" for v
    by (simp add: quietDispatch_def)
  have e0: "evlog emptyWorld = []"
    by (simp add: emptyWorld_def)
  from dispatch_missing_arguments [of noArgs quietDispatch emptyWorld]
       dispatch_missing_arguments [of roomOnly quietDispatch emptyWorld]
       dispatch_missing_arguments [of emptyRoom quietDispatch emptyWorld]
       dispatch_missing_arguments [of roomFlagOnly quietDispatch emptyWorld]
       dispatch_missing_arguments [of newRoomOnly quietDispatch emptyWorld]
  show ?thesis
    by (simp add: a r er rf nr h gd e0)
qed

text \<open>
  The claim as stated fails in both directions: \<^verbatim>\<open>lk dispatch get\<close> prints the help
  and returns nil, no error; \<^verbatim>\<open>lk dispatch get room1\<close> returns an error and prints
  no help.
\<close>

theorem getAgentDispatch_help_or_error:
  "c_args noArgs = [] \<and>
   fst (getAgentDispatch quietDispatch noArgs emptyWorld) = None \<and>
   evlog (snd (getAgentDispatch quietDispatch noArgs emptyWorld)) = [EvShowSubcommandHelp] \<and>
   args_Get1 roomOnly = [] \<and>
   fst (getAgentDispatch quietDispatch roomOnly emptyWorld) =
     Some (Err ''dispatch ID is required'') \<and>
   evlog (snd (getAgentDispatch quietDispatch roomOnly emptyWorld)) = []"
  by (simp add: getAgentDispatch_def invoke_eq quietDispatch_def noArgs_def roomOnly_def
      plainCommand_def emptyWorld_def args_First_def args_Get1_def)

end
